theory Spec2Isabelle
  imports Main
begin

section \<open>Strings\<close>

text \<open>
  A JavaScript string is modelled as a \<^typ>\<open>string\<close>: one \<^typ>\<open>char\<close> per code unit.
  The model covers text whose code units are below 256; letters outside ASCII have no
  case mapping here (none of the literals the program compares against has one).
\<close>

text \<open>The class \<open>\s\<close> of a regular expression, which is also what \<open>trim\<close> strips:
  TAB, LF, VT, FF, CR, SPACE and NBSP.\<close>

definition isWhiteSpace :: "char \<Rightarrow> bool" where
  "isWhiteSpace c = (of_char c \<in> {9, 10, 11, 12, 13, 32, 160 :: nat})"

text \<open>Line terminators, where \<open>^\<close> and \<open>$\<close> of a multiline regular expression match.\<close>

definition isLineTerminator :: "char \<Rightarrow> bool" where
  "isLineTerminator c = (of_char c \<in> {10, 13 :: nat})"

text \<open>The class \<open>\w\<close>.\<close>

definition isWordChar :: "char \<Rightarrow> bool" where
  "isWordChar c =
     (c \<in> set ''abcdefghijklmnopqrstuvwxyzABCDEFGHIJKLMNOPQRSTUVWXYZ0123456789_'')"

definition toLowerChar :: "char \<Rightarrow> char" where
  "toLowerChar c =
     (case map_of (zip ''ABCDEFGHIJKLMNOPQRSTUVWXYZ'' ''abcdefghijklmnopqrstuvwxyz'') c of
        Some d \<Rightarrow> d | None \<Rightarrow> c)"

definition toUpperChar :: "char \<Rightarrow> char" where
  "toUpperChar c =
     (case map_of (zip ''abcdefghijklmnopqrstuvwxyz'' ''ABCDEFGHIJKLMNOPQRSTUVWXYZ'') c of
        Some d \<Rightarrow> d | None \<Rightarrow> c)"

definition toLowerCase :: "string \<Rightarrow> string" where
  "toLowerCase s = map toLowerChar s"

definition trimStart :: "string \<Rightarrow> string" where
  "trimStart s = dropWhile isWhiteSpace s"

definition trimEnd :: "string \<Rightarrow> string" where
  "trimEnd s = rev (dropWhile isWhiteSpace (rev s))"

definition trim :: "string \<Rightarrow> string" where
  "trim s = trimEnd (trimStart s)"

fun startsWith :: "string \<Rightarrow> string \<Rightarrow> bool" where
  "startsWith s [] = True"
| "startsWith [] (p # ps) = False"
| "startsWith (c # cs) (p # ps) = (c = p \<and> startsWith cs ps)"

definition endsWith :: "string \<Rightarrow> string \<Rightarrow> bool" where
  "endsWith s p = startsWith (rev s) (rev p)"

text \<open>\<open>s.includes(p)\<close>.\<close>

fun includesStr :: "string \<Rightarrow> string \<Rightarrow> bool" where
  "includesStr [] p = (p = [])"
| "includesStr (c # cs) p = (startsWith (c # cs) p \<or> includesStr cs p)"

text \<open>\<open>s.indexOf(p)\<close>, with \<open>None\<close> for \<open>-1\<close>.\<close>

fun indexOf :: "string \<Rightarrow> string \<Rightarrow> nat option" where
  "indexOf [] p = (if p = [] then Some 0 else None)"
| "indexOf (c # cs) p =
     (if startsWith (c # cs) p then Some 0 else map_option Suc (indexOf cs p))"

text \<open>\<open>s.split('\n')\<close>: never empty, \<open>['']\<close> for the empty string.\<close>

fun splitLines :: "string \<Rightarrow> string list" where
  "splitLines [] = [[]]"
| "splitLines (c # cs) =
     (if c = CHR 0x0A then [] # splitLines cs
      else (case splitLines cs of l # ls \<Rightarrow> (c # l) # ls | [] \<Rightarrow> [[c]]))"

text \<open>\<open>s.split(sep)[0]\<close>: the text before the first occurrence of a non-empty \<open>sep\<close>,
  all of \<open>s\<close> when there is none.\<close>

definition beforeFirst :: "string \<Rightarrow> string \<Rightarrow> string" where
  "beforeFirst s sep = (case indexOf s sep of None \<Rightarrow> s | Some i \<Rightarrow> take i s)"

text \<open>A text between double quotes, as the messages show names.\<close>

definition quoted :: "string \<Rightarrow> string" where
  "quoted s = CHR 0x22 # s @ [CHR 0x22]"

text \<open>Decimal rendering of a number inside a template string.\<close>

fun showNat :: "nat \<Rightarrow> string" where
  "showNat n =
     (if n < 10 then [''0123456789'' ! n]
      else showNat (n div 10) @ [''0123456789'' ! (n mod 10)])"

declare showNat.simps [simp del]

text \<open>The same for a number of milliseconds, which is not negative.\<close>

function showInt :: "int \<Rightarrow> string" where
  "showInt n =
     (if n < 10 then [''0123456789'' ! nat n]
      else showInt (n div 10) @ [''0123456789'' ! nat (n mod 10)])"
  by pat_completeness auto
termination
  by (relation "measure nat") auto

declare showInt.simps [simp del]

section \<open>Section extraction\<close>

subsection \<open>The heading's regular expression\<close>

text \<open>
  \<open>parseSection(body, heading)\<close> builds \<open>new RegExp(`^##\\s+${heading}\\s*$`, 'im')\<close>.
  Every call passes for \<open>heading\<close> literal texts joined by \<open>|\<close> (a dot escaped):
  \<open>CLAUDE\.md\<close>, \<open>Append to CLAUDE\.md\<close>, \<open>Mounts\<close>, \<open>API Keys|Env|Environment\<close>,
  \<open>Scheduled Tasks|Tasks\<close>. The model takes the list of these literals. The bar binds
  weakest, so with several literals the expression has the alternatives
  \<open>^##\s+A\<close>, then \<open>B\<close>, ..., then \<open>Z\s*$\<close>: only the first carries the heading marker and
  only the last the end of line.

  A matcher takes whether the position is at the start of a line and the text from the
  position on; it returns the text left after the match.
\<close>

type_synonym matcher = "bool \<Rightarrow> string \<Rightarrow> string option"

text \<open>Equality of two code units under the flag \<open>i\<close>.\<close>

definition canonEq :: "char \<Rightarrow> char \<Rightarrow> bool" where
  "canonEq p c = (toUpperChar p = toUpperChar c)"

fun mLit :: "string \<Rightarrow> string \<Rightarrow> string option" where
  "mLit [] s = Some s"
| "mLit (p # ps) [] = None"
| "mLit (p # ps) (c # cs) = (if canonEq p c then mLit ps cs else None)"

text \<open>Greedy \<open>\s*\<close> followed by \<open>k\<close>: the longest run first, then shorter ones.\<close>

fun mSpaces :: "(string \<Rightarrow> string option) \<Rightarrow> string \<Rightarrow> string option" where
  "mSpaces k [] = k []"
| "mSpaces k (c # cs) =
     (if isWhiteSpace c
      then (case mSpaces k cs of Some r \<Rightarrow> Some r | None \<Rightarrow> k (c # cs))
      else k (c # cs))"

text \<open>Greedy \<open>\s+\<close> followed by \<open>k\<close>.\<close>

fun mSpaces1 :: "(string \<Rightarrow> string option) \<Rightarrow> string \<Rightarrow> string option" where
  "mSpaces1 k [] = None"
| "mSpaces1 k (c # cs) = (if isWhiteSpace c then mSpaces k cs else None)"

text \<open>\<open>$\<close> under the flag \<open>m\<close>.\<close>

fun mEol :: "string \<Rightarrow> string option" where
  "mEol [] = Some []"
| "mEol (c # cs) = (if isLineTerminator c then Some (c # cs) else None)"

text \<open>\<open>^##\<close> under the flag \<open>m\<close>, followed by \<open>k\<close>.\<close>

fun mHashes :: "(string \<Rightarrow> string option) \<Rightarrow> matcher" where
  "mHashes k bol (a # b # s) = (if bol \<and> a = CHR ''#'' \<and> b = CHR ''#'' then k s else None)"
| "mHashes k bol s = None"

definition altOnly :: "string \<Rightarrow> matcher" where
  "altOnly lit = mHashes (mSpaces1 (\<lambda>s. case mLit lit s of None \<Rightarrow> None
                                          | Some r \<Rightarrow> mSpaces mEol r))"

definition altFirst :: "string \<Rightarrow> matcher" where
  "altFirst lit = mHashes (mSpaces1 (mLit lit))"

definition altMiddle :: "string \<Rightarrow> matcher" where
  "altMiddle lit = (\<lambda>bol s. mLit lit s)"

definition altLast :: "string \<Rightarrow> matcher" where
  "altLast lit = (\<lambda>bol s. case mLit lit s of None \<Rightarrow> None | Some r \<Rightarrow> mSpaces mEol r)"

text \<open>Alternatives are tried in order at one position.\<close>

fun mAlts :: "matcher list \<Rightarrow> matcher" where
  "mAlts [] bol s = None"
| "mAlts (m # ms) bol s = (case m bol s of Some r \<Rightarrow> Some r | None \<Rightarrow> mAlts ms bol s)"

fun headingRegex :: "string list \<Rightarrow> matcher" where
  "headingRegex [] = altOnly []"
| "headingRegex [a] = altOnly a"
| "headingRegex (a # b # bs) =
     mAlts (altFirst a # map altMiddle (butlast (b # bs)) @ [altLast (last (b # bs))])"

text \<open>\<open>body.match(regex)\<close> without the flag \<open>g\<close>: the leftmost position where the
  expression matches, as \<open>(match.index, match[0].length)\<close>.\<close>

fun searchFrom :: "matcher \<Rightarrow> bool \<Rightarrow> nat \<Rightarrow> string \<Rightarrow> (nat \<times> nat) option" where
  "searchFrom m bol i [] = (case m bol [] of Some r \<Rightarrow> Some (i, 0) | None \<Rightarrow> None)"
| "searchFrom m bol i (c # cs) =
     (case m bol (c # cs) of
        Some r \<Rightarrow> Some (i, length (c # cs) - length r)
      | None \<Rightarrow> searchFrom m (isLineTerminator c) (Suc i) cs)"

definition matchHeading :: "string \<Rightarrow> string list \<Rightarrow> (nat \<times> nat) option" where
  "matchHeading body heading = searchFrom (headingRegex heading) True 0 body"

subsection \<open>The end of the section\<close>

text \<open>
  The loop over \<open>rest.split('\n')\<close>: \<open>inCodeBlock\<close> and \<open>pos\<close> are the loop's variables,
  the result is \<open>end\<close> (\<open>None\<close> for \<open>-1\<close>).
\<close>

fun findEnd :: "bool \<Rightarrow> nat \<Rightarrow> string list \<Rightarrow> nat option" where
  "findEnd inCodeBlock pos [] = None"
| "findEnd inCodeBlock pos (line # lines) =
     (if startsWith line ''```'' then findEnd (\<not> inCodeBlock) (pos + length line + 1) lines
      else if \<not> inCodeBlock \<and> startsWith line ''## '' then Some pos
      else findEnd inCodeBlock (pos + length line + 1) lines)"

definition sectionText :: "string \<Rightarrow> string" where
  "sectionText rest =
     (case findEnd False 0 (splitLines rest) of None \<Rightarrow> rest | Some e \<Rightarrow> take e rest)"

text \<open>\<open>t || null\<close>.\<close>

definition orNull :: "string \<Rightarrow> string option" where
  "orNull t = (if t = [] then None else Some t)"

definition parseSection :: "string \<Rightarrow> string list \<Rightarrow> string option" where
  "parseSection body heading =
     (case matchHeading body heading of
        None \<Rightarrow> None
      | Some (idx, len) \<Rightarrow> orNull (trim (sectionText (drop (idx + len) body))))"

section \<open>The spec file's header\<close>

datatype operation = Create | Modify | Delete

record SpecFrontmatter =
  operation :: operation
  agent :: string
  model :: "string option"

text \<open>A value of JavaScript is falsy when it is \<open>undefined\<close> or the empty string;
  \<open>a || b\<close> is \<open>a\<close> unless \<open>a\<close> is falsy.\<close>

fun truthy :: "string option \<Rightarrow> bool" where
  "truthy None = False"
| "truthy (Some s) = (s \<noteq> [])"

definition orElse :: "string option \<Rightarrow> string option \<Rightarrow> string option" where
  "orElse a b = (if truthy a then a else b)"

text \<open>One line of the header block: \<open>key: value\<close>, both trimmed; a line without a
  colon is skipped.\<close>

definition parseKeyValue :: "string \<Rightarrow> (string \<times> string) option" where
  "parseKeyValue line =
     (case indexOf line '':'' of
        None \<Rightarrow> None
      | Some colonIdx \<Rightarrow> Some (trim (take colonIdx line), trim (drop (colonIdx + 1) line)))"

text \<open>\<open>fm[key] = value\<close> over the lines in order: a later line overrides an earlier one
  with the same key.\<close>

definition frontmatterFields :: "string \<Rightarrow> (string \<rightharpoonup> string)" where
  "frontmatterFields yamlBlock = map_of (rev (List.map_filter parseKeyValue (splitLines yamlBlock)))"

definition parseOperation :: "string \<Rightarrow> operation option" where
  "parseOperation s =
     (if s = ''create'' then Some Create
      else if s = ''modify'' then Some Modify
      else if s = ''delete'' then Some Delete
      else None)"

text \<open>
  The expression \<open>/^---\n([\s\S]*?)\n---\n([\s\S]*)$/\<close> has no flag: \<open>^\<close> is the start of
  the text and \<open>$\<close> its end. The first group is lazy, so it ends at the first
  \<open>\n---\n\<close> after the opening line; the second group is everything after it.
\<close>

definition splitFrontmatter :: "string \<Rightarrow> (string \<times> string) option" where
  "splitFrontmatter content =
     (if startsWith content ''---\<newline>''
      then (let r = drop 4 content in
            case indexOf r ''\<newline>---\<newline>'' of
              None \<Rightarrow> None
            | Some i \<Rightarrow> Some (take i r, drop (i + 5) r))
      else None)"

definition parseFrontmatter :: "string \<Rightarrow> (SpecFrontmatter \<times> string) option" where
  "parseFrontmatter content =
     (case splitFrontmatter content of
        None \<Rightarrow> None
      | Some (yamlBlock, body) \<Rightarrow>
          (let fm = frontmatterFields yamlBlock in
           if \<not> truthy (fm ''operation'') \<or> \<not> truthy (fm ''agent'') then None
           else (case parseOperation (the (fm ''operation'')) of
                   None \<Rightarrow> None
                 | Some opn \<Rightarrow>
                     Some (\<lparr>operation = opn, agent = the (fm ''agent''),
                             model = fm ''model''\<rparr>, body))))"

section \<open>Code blocks and lists\<close>

text \<open>
  \<open>text.match(/```[\w]*\n([\s\S]*?)```/)\<close>: at the leftmost position where a fence,
  word characters and a newline are followed, somewhere later, by a closing fence, the
  text between (up to the first closing fence), trimmed.
\<close>

definition codeBlockAt :: "string \<Rightarrow> string option" where
  "codeBlockAt s =
     (if startsWith s ''```''
      then (case dropWhile isWordChar (drop 3 s) of
              [] \<Rightarrow> None
            | c # r \<Rightarrow>
                if c = CHR 0x0A
                then (case indexOf r ''```'' of None \<Rightarrow> None | Some i \<Rightarrow> Some (trim (take i r)))
                else None)
      else None)"

fun parseCodeBlock :: "string \<Rightarrow> string option" where
  "parseCodeBlock [] = None"
| "parseCodeBlock (c # cs) =
     (case codeBlockAt (c # cs) of Some b \<Rightarrow> Some b | None \<Rightarrow> parseCodeBlock cs)"

text \<open>\<open>parseCodeBlock(section) || section\<close>: an empty block is falsy.\<close>

definition blockOrSection :: "string \<Rightarrow> string" where
  "blockOrSection section =
     (case parseCodeBlock section of
        None \<Rightarrow> section
      | Some b \<Rightarrow> if b = [] then section else b)"

text \<open>An item of a list is an object with string values: its keys in insertion order.\<close>

type_synonym item = "(string \<times> string) list"

fun setKey :: "item \<Rightarrow> string \<Rightarrow> string \<Rightarrow> item" where
  "setKey [] k v = [(k, v)]"
| "setKey ((k', v') # kvs) k v = (if k' = k then (k, v) # kvs else (k', v') # setKey kvs k v)"

definition getKey :: "item \<Rightarrow> string \<Rightarrow> string option" where
  "getKey it k = map_of it k"

text \<open>\<open>current[key] = value\<close> for the text \<open>key: value\<close>; nothing without a colon.\<close>

definition setFromText :: "item \<Rightarrow> string \<Rightarrow> item" where
  "setFromText current t =
     (case indexOf t '':'' of
        None \<Rightarrow> current
      | Some colonIdx \<Rightarrow> setKey current (trim (take colonIdx t)) (trim (drop (colonIdx + 1) t)))"

text \<open>The loop of \<open>parseYamlList\<close>: \<open>items\<close> and \<open>current\<close> are its variables.\<close>

fun yamlLoop :: "item list \<Rightarrow> item option \<Rightarrow> string list \<Rightarrow> item list" where
  "yamlLoop items current [] = (case current of None \<Rightarrow> items | Some c \<Rightarrow> items @ [c])"
| "yamlLoop items current (line # lines) =
     (let trimmed = trim line in
      if startsWith trimmed ''- '' \<and> includesStr trimmed '':''
      then yamlLoop (case current of None \<Rightarrow> items | Some c \<Rightarrow> items @ [c])
             (Some (setFromText [] (drop 2 trimmed))) lines
      else if current \<noteq> None \<and> includesStr trimmed '':''
      then yamlLoop items (Some (setFromText (the current) trimmed)) lines
      else yamlLoop items current lines)"

definition parseYamlList :: "string \<Rightarrow> item list" where
  "parseYamlList t = yamlLoop [] None (splitLines t)"

section \<open>Paths and configuration\<close>

text \<open>
  What the program takes from outside: the two directory roots of \<open>config.js\<close>, the
  folder-name check of \<open>group-folder.js\<close>, the cron library, the reader of \<open>.env\<close>,
  the JSON codec as far as the settings file goes, and the clock. A cron expression the
  library rejects makes \<open>CronExpressionParser.parse\<close> throw; \<open>cronNext\<close> gives then
  \<open>Inl\<close> of the message.
\<close>

record config =
  GROUPS_DIR :: string
  DATA_DIR :: string
  isValidGroupFolder :: "string \<Rightarrow> bool"
  cronNext :: "string \<Rightarrow> string + string"
  readEnvFile :: "string list \<Rightarrow> (string \<times> string) list"
  jsonStringify :: "(string \<times> string) list \<Rightarrow> string"
  jsonParse :: "string \<Rightarrow> string + (string \<times> string) list"
  nowISO :: string
  nowMs :: int

text \<open>
  \<open>path.join\<close> on segments that are already normalised (no empty, \<open>.\<close> or \<open>..\<close>
  segment) is the segments joined by a slash. The roots are taken normalised, and an
  agent name that passes the folder check is taken to be one plain segment.
\<close>

fun pathJoin :: "string list \<Rightarrow> string" where
  "pathJoin [] = ''.''"
| "pathJoin [p] = p"
| "pathJoin (p # q # ps) = p @ ''/'' @ pathJoin (q # ps)"

definition SHARED_DIR :: "config \<Rightarrow> string" where
  "SHARED_DIR cfg = pathJoin [GROUPS_DIR cfg, ''main'', ''shared'']"

definition AGENT_OPS_DIR :: "config \<Rightarrow> string" where
  "AGENT_OPS_DIR cfg = pathJoin [GROUPS_DIR cfg, ''main'', ''shared'', ''agent-ops'']"

definition LOG_FILE :: "config \<Rightarrow> string" where
  "LOG_FILE cfg = pathJoin [SHARED_DIR cfg, ''log'', ''agent-ops.log'']"

definition MAX_CLAUDE_MD_LINES :: nat where
  "MAX_CLAUDE_MD_LINES = 150"

definition SELF_MOD_NAMES :: "string set" where
  "SELF_MOD_NAMES = {''orchestrator'', ''main''}"

definition MODEL_MAP :: "string \<rightharpoonup> string" where
  "MODEL_MAP = map_of
     [(''opus'', ''claude-opus-4-6''),
      (''sonnet'', ''claude-sonnet-4-6''),
      (''haiku'', ''claude-haiku-4-6''),
      (''opus-4-6'', ''claude-opus-4-6''),
      (''sonnet-4-6'', ''claude-sonnet-4-6''),
      (''claude-opus-4-6'', ''claude-opus-4-6''),
      (''claude-sonnet-4-6'', ''claude-sonnet-4-6'')]"

definition resolveModel :: "string option \<Rightarrow> string" where
  "resolveModel m =
     (if \<not> truthy m then ''claude-sonnet-4-6''
      else (case MODEL_MAP (trim (toLowerCase (the m))) of
              Some full \<Rightarrow> full
            | None \<Rightarrow> the m))"

text \<open>\<open>path.basename(p)\<close>: the last segment, trailing slashes dropped.\<close>

definition dropTrailingSlashes :: "string \<Rightarrow> string" where
  "dropTrailingSlashes p = rev (dropWhile (\<lambda>c. c = CHR ''/'') (rev p))"

definition basename :: "string \<Rightarrow> string" where
  "basename p = rev (takeWhile (\<lambda>c. c \<noteq> CHR ''/'') (rev (dropTrailingSlashes p)))"

section \<open>Mount isolation\<close>

record mount =
  hostPath :: string
  containerPath :: string
  readonly :: bool

text \<open>\<open>hp.slice(sharedSubdir.length + 1).split('/')[0]\<close>.\<close>

definition firstSegment :: "string \<Rightarrow> string" where
  "firstSegment s = takeWhile (\<lambda>c. c \<noteq> CHR ''/'') s"

text \<open>The inner loop over \<open>['tasks', 'results', 'knowledge']\<close> for one host path.\<close>

fun checkSubdirs :: "config \<Rightarrow> string \<Rightarrow> string \<Rightarrow> string list \<Rightarrow> string option" where
  "checkSubdirs cfg agentName hp [] = None"
| "checkSubdirs cfg agentName hp (subdir # subdirs) =
     (let sharedSubdir = pathJoin [SHARED_DIR cfg, subdir] in
      if startsWith hp (sharedSubdir @ ''/'')
      then (let relative = firstSegment (drop (length sharedSubdir + 1) hp) in
            if relative \<noteq> [] \<and> relative \<noteq> agentName
            then Some (''Mount '' @ quoted hp @ '' crosses into agent '' @ quoted relative
                        @ '' '' @ subdir @ '' directory'')
            else checkSubdirs cfg agentName hp subdirs)
      else checkSubdirs cfg agentName hp subdirs)"

fun validateMountsIsolation :: "config \<Rightarrow> string \<Rightarrow> mount list \<Rightarrow> string option" where
  "validateMountsIsolation cfg agentName [] = None"
| "validateMountsIsolation cfg agentName (m # mounts) =
     (case checkSubdirs cfg agentName (hostPath m) [''tasks'', ''results'', ''knowledge''] of
        Some msg \<Rightarrow> Some msg
      | None \<Rightarrow> validateMountsIsolation cfg agentName mounts)"

section \<open>Registry, scheduler and file system\<close>

record containerConfig =
  additionalMounts :: "mount list option"
  timeout :: "int option"

record RegisteredGroup =
  name :: string
  folder :: string
  trigger :: string
  added_at :: string
  containerConfig :: "containerConfig option"
  requiresTrigger :: bool

record ScheduledTask =
  task_id :: string
  group_folder :: string
  chat_jid :: string
  prompt :: string
  schedule_type :: string
  schedule_value :: string
  context_mode :: string
  next_run :: string
  status :: string
  created_at :: string

text \<open>
  The state the program works on: the two tables of the registry, the files (path and
  content) and directories of the file system, and the lines \<open>log\<close> has written. \<open>log\<close>
  prints a line and appends it to the log file, ignoring a failure; the model keeps these
  lines in \<open>logs\<close>, apart from \<open>files\<close>, without the time stamp.
\<close>

record state =
  groups :: "(string \<times> RegisteredGroup) list"
  tasks :: "ScheduledTask list"
  files :: "(string \<times> string) list"
  dirs :: "string list"
  logs :: "string list"

text \<open>What a step returns: the message of the \<open>Error\<close> it threw, if it threw, and the
  state it left. Effects done before a throw stay.\<close>

type_synonym outcome = "string option \<times> state"

definition andThen :: "outcome \<Rightarrow> (state \<Rightarrow> outcome) \<Rightarrow> outcome" where
  "andThen r f = (case r of (None, st) \<Rightarrow> f st | (Some e, st) \<Rightarrow> (Some e, st))"

definition log :: "string \<Rightarrow> state \<Rightarrow> state" where
  "log message st = st\<lparr>logs := logs st @ [message]\<rparr>"

subsection \<open>Registry\<close>

text \<open>Modelled from the spec: \<open>db.js\<close> is not among the sources. The registry is consumed
  by get, set and delete by key and by listing; every call is atomic.\<close>

definition getRegisteredGroup :: "state \<Rightarrow> string \<Rightarrow> RegisteredGroup option" where
  "getRegisteredGroup st jid = map_of (groups st) jid"

fun setGroup :: "(string \<times> RegisteredGroup) list \<Rightarrow> string \<Rightarrow> RegisteredGroup
    \<Rightarrow> (string \<times> RegisteredGroup) list" where
  "setGroup [] jid g = [(jid, g)]"
| "setGroup ((j, g') # gs) jid g = (if j = jid then (jid, g) # gs else (j, g') # setGroup gs jid g)"

definition setRegisteredGroup :: "string \<Rightarrow> RegisteredGroup \<Rightarrow> state \<Rightarrow> state" where
  "setRegisteredGroup jid g st = st\<lparr>groups := setGroup (groups st) jid g\<rparr>"

definition deleteRegisteredGroup :: "string \<Rightarrow> state \<Rightarrow> state" where
  "deleteRegisteredGroup jid st = st\<lparr>groups := filter (\<lambda>(j, g). j \<noteq> jid) (groups st)\<rparr>"

definition getAllRegisteredGroups :: "state \<Rightarrow> (string \<times> RegisteredGroup) list" where
  "getAllRegisteredGroups st = groups st"

definition getTasksForGroup :: "state \<Rightarrow> string \<Rightarrow> ScheduledTask list" where
  "getTasksForGroup st f = filter (\<lambda>t. group_folder t = f) (tasks st)"

text \<open>Modelled from the spec: a task's id is unique per registry; \<open>createTask\<close> with an id
  that exists throws (the set-up script catches its \<open>UNIQUE constraint\<close> error).\<close>

definition createTask :: "ScheduledTask \<Rightarrow> state \<Rightarrow> outcome" where
  "createTask t st =
     (if task_id t \<in> set (map task_id (tasks st))
      then (Some ''UNIQUE constraint failed: scheduled_tasks.id'', st)
      else (None, st\<lparr>tasks := tasks st @ [t]\<rparr>))"

text \<open>The patch the program passes: prompt, schedule value, next run and status.\<close>

definition updateTask :: "string \<Rightarrow> string \<Rightarrow> string \<Rightarrow> string \<Rightarrow> string \<Rightarrow> state \<Rightarrow> state" where
  "updateTask tid p sv nr stat st =
     st\<lparr>tasks := map (\<lambda>t. if task_id t = tid
                            then t\<lparr>prompt := p, schedule_value := sv, next_run := nr, status := stat\<rparr>
                            else t) (tasks st)\<rparr>"

definition deleteTask :: "string \<Rightarrow> state \<Rightarrow> state" where
  "deleteTask tid st = st\<lparr>tasks := filter (\<lambda>t. task_id t \<noteq> tid) (tasks st)\<rparr>"

subsection \<open>File system\<close>

text \<open>
  Files are paths with their content, directories are paths. A call fails only where a
  path it reads or renames does not exist; permissions and other failures of the
  operating system are outside the model.
\<close>

definition isUnder :: "string \<Rightarrow> string \<Rightarrow> bool" where
  "isUnder p d = (p = d \<or> startsWith p (d @ ''/''))"

definition existsSync :: "state \<Rightarrow> string \<Rightarrow> bool" where
  "existsSync st p = list_ex (\<lambda>q. isUnder q p) (map fst (files st) @ dirs st)"

definition readFileSync :: "state \<Rightarrow> string \<Rightarrow> string option" where
  "readFileSync st p = map_of (files st) p"

definition writeFileSync :: "string \<Rightarrow> string \<Rightarrow> state \<Rightarrow> state" where
  "writeFileSync p c st = st\<lparr>files := setKey (files st) p c\<rparr>"

text \<open>\<open>mkdirSync(p, {recursive: true})\<close>: the directory and those above it.\<close>

definition dirsOf :: "string \<Rightarrow> string list" where
  "dirsOf p = [take i p. i \<leftarrow> [1..<length p], p ! i = CHR ''/''] @ [p]"

definition mkdirSync :: "string \<Rightarrow> state \<Rightarrow> state" where
  "mkdirSync p st = st\<lparr>dirs := dirs st @ filter (\<lambda>d. d \<notin> set (dirs st)) (dirsOf p)\<rparr>"

text \<open>\<open>rmSync(p, {recursive: true})\<close>.\<close>

definition rmSync :: "string \<Rightarrow> state \<Rightarrow> state" where
  "rmSync p st = st\<lparr>files := filter (\<lambda>(q, c). \<not> isUnder q p) (files st),
                     dirs := filter (\<lambda>q. \<not> isUnder q p) (dirs st)\<rparr>"

text \<open>\<open>readdirSync(d)\<close>: the names directly below \<open>d\<close>.\<close>

definition readdirSync :: "state \<Rightarrow> string \<Rightarrow> string list" where
  "readdirSync st d =
     remdups (map (\<lambda>q. firstSegment (drop (length d + 1) q))
                (filter (\<lambda>q. startsWith q (d @ ''/'')) (map fst (files st) @ dirs st)))"

text \<open>\<open>renameSync(old, new)\<close>: what is at \<open>old\<close> or below it moves to \<open>new\<close>, replacing
  what was there; it throws when nothing is at \<open>old\<close>. The program renames a spec file
  to a name beside it and an entry of an inbox to the archive beside the inbox; neither
  path ever lies below the other.\<close>

definition movePath :: "string \<Rightarrow> string \<Rightarrow> string \<Rightarrow> string" where
  "movePath old new q = (if isUnder q old then new @ drop (length old) q else q)"

definition renameSync :: "string \<Rightarrow> string \<Rightarrow> state \<Rightarrow> outcome" where
  "renameSync old new st =
     (if \<not> existsSync st old
      then (Some (''ENOENT: no such file or directory, rename '' @ old), st)
      else if old = new then (None, st)
      else (None, st\<lparr>files := map (\<lambda>(q, c). (movePath old new q, c))
                                (filter (\<lambda>(q, c). \<not> isUnder q new) (files st)),
                      dirs := map (movePath old new) (filter (\<lambda>q. \<not> isUnder q new) (dirs st))\<rparr>))"

text \<open>\<open>path.dirname(p)\<close> and \<open>path.basename(p, '.md')\<close>.\<close>

definition dirname :: "string \<Rightarrow> string" where
  "dirname p =
     (let q = dropTrailingSlashes p in
      if CHR ''/'' \<notin> set q then (if p \<noteq> [] \<and> q = [] then ''/'' else ''.'')
      else (let d = dropTrailingSlashes (rev (dropWhile (\<lambda>c. c \<noteq> CHR ''/'') (rev q)))
            in if d = [] then ''/'' else d))"

definition basenameMd :: "string \<Rightarrow> string" where
  "basenameMd p =
     (let b = basename p in
      if endsWith b ''.md'' \<and> b \<noteq> ''.md'' then take (length b - 3) b else b)"

section \<open>Operation handlers\<close>

text \<open>The loop that turns the items of a mounts section into mounts, in \<open>handleCreate\<close>
  and again in \<open>handleModify\<close>.\<close>

definition mountFromItem :: "item \<Rightarrow> mount option" where
  "mountFromItem it =
     (let hp = orElse (getKey it ''hostPath'') (getKey it ''host'');
          cp = orElse (getKey it ''containerPath'') (getKey it ''container'')
      in if truthy hp
         then Some \<lparr>hostPath = the hp,
                    containerPath = (if truthy cp then the cp else basename (the hp)),
                    readonly = (getKey it ''readonly'' = Some ''true''
                                \<or> getKey it ''readonly'' = Some ''yes'')\<rparr>
         else None)"

definition parseMounts :: "string \<Rightarrow> mount list" where
  "parseMounts mountsSection = List.map_filter mountFromItem (parseYamlList mountsSection)"

definition standardMounts :: "config \<Rightarrow> string \<Rightarrow> mount list" where
  "standardMounts cfg agentName =
     [\<lparr>hostPath = pathJoin [SHARED_DIR cfg, ''tasks'', agentName],
        containerPath = ''tasks'', readonly = False\<rparr>,
      \<lparr>hostPath = pathJoin [SHARED_DIR cfg, ''results'', agentName],
        containerPath = ''results'', readonly = False\<rparr>,
      \<lparr>hostPath = pathJoin [SHARED_DIR cfg, ''knowledge'', agentName],
        containerPath = ''knowledge'', readonly = False\<rparr>,
      \<lparr>hostPath = SHARED_DIR cfg, containerPath = ''shared'', readonly = True\<rparr>]"

text \<open>The shared directory structure of an agent, as \<open>handleCreate\<close> lists it.\<close>

definition partitionDirs :: "config \<Rightarrow> string \<Rightarrow> string list" where
  "partitionDirs cfg agentName =
     map (\<lambda>sub. pathJoin [SHARED_DIR cfg, sub])
       [''tasks/'' @ agentName @ ''/inbox'',
        ''tasks/'' @ agentName @ ''/active'',
        ''tasks/'' @ agentName @ ''/archive'',
        ''results/'' @ agentName @ ''/inbox'',
        ''results/'' @ agentName @ ''/archive'',
        ''knowledge/'' @ agentName,
        ''knowledge/'' @ agentName @ ''/archive'']"

text \<open>\<open>Object.values(item)[0] || Object.keys(item)[0]\<close>, kept when truthy.\<close>

definition envKeyName :: "item \<Rightarrow> string option" where
  "envKeyName it =
     (case it of
        [] \<Rightarrow> None
      | (k, v) # kvs \<Rightarrow> if v \<noteq> [] then Some v else if k \<noteq> [] then Some k else None)"

definition objectAssign :: "item \<Rightarrow> item \<Rightarrow> item" where
  "objectAssign target source = foldl (\<lambda>acc (k, v). setKey acc k v) target source"

definition createEnvVars :: "config \<Rightarrow> string \<Rightarrow> string option \<Rightarrow> item" where
  "createEnvVars cfg body mdl =
     (let envVars = [(''CLAUDE_CODE_EXPERIMENTAL_AGENT_TEAMS'', ''1''),
                     (''CLAUDE_CODE_ADDITIONAL_DIRECTORIES_CLAUDE_MD'', ''1''),
                     (''CLAUDE_CODE_DISABLE_AUTO_MEMORY'', ''0''),
                     (''CLAUDE_CODE_USE_MODEL'', resolveModel mdl)]
      in case parseSection body [''API Keys'', ''Env'', ''Environment''] of
           None \<Rightarrow> envVars
         | Some envSection \<Rightarrow>
             (let keyNames = List.map_filter envKeyName (parseYamlList envSection)
              in if keyNames \<noteq> [] then objectAssign envVars (readEnvFile cfg keyNames)
                 else envVars))"

text \<open>The fields of a task item that both handlers read.\<close>

definition itemTaskId :: "config \<Rightarrow> string \<Rightarrow> item \<Rightarrow> string" where
  "itemTaskId cfg agentName it =
     (if truthy (getKey it ''id'') then the (getKey it ''id'')
      else ''task-'' @ agentName @ ''-'' @ showInt (nowMs cfg))"

definition itemCron :: "item \<Rightarrow> string option" where
  "itemCron it = orElse (getKey it ''cron'') (getKey it ''schedule'')"

definition itemPrompt :: "item \<Rightarrow> string" where
  "itemPrompt it =
     (let p = orElse (getKey it ''prompt'') (getKey it ''description'')
      in if truthy p then the p else [])"

definition itemContextMode :: "item \<Rightarrow> string" where
  "itemContextMode it =
     (if truthy (getKey it ''context_mode'') then the (getKey it ''context_mode'') else ''group'')"

definition newTask :: "config \<Rightarrow> string \<Rightarrow> string \<Rightarrow> string \<Rightarrow> item \<Rightarrow> string \<Rightarrow> ScheduledTask" where
  "newTask cfg agentName fld jid it nextRun =
     \<lparr>task_id = itemTaskId cfg agentName it, group_folder = fld, chat_jid = jid,
      prompt = itemPrompt it, schedule_type = ''cron'', schedule_value = the (itemCron it),
      context_mode = itemContextMode it, next_run = nextRun, status = ''active'',
      created_at = nowISO cfg\<rparr>"

text \<open>
  The loop over the task items in \<open>handleCreate\<close>. An item without a cron expression or
  without a prompt is skipped (\<open>continue\<close>). \<open>computeNextCronRun\<close> is evaluated while the
  argument of \<open>createTask\<close> is built; nothing in the loop catches what it throws.
\<close>

fun createTasks :: "config \<Rightarrow> string \<Rightarrow> string \<Rightarrow> string \<Rightarrow> item list \<Rightarrow> state \<Rightarrow> outcome" where
  "createTasks cfg agentName fld jid [] st = (None, st)"
| "createTasks cfg agentName fld jid (it # items) st =
     (if \<not> truthy (itemCron it) \<or> itemPrompt it = [] then createTasks cfg agentName fld jid items st
      else (case cronNext cfg (the (itemCron it)) of
              Inl e \<Rightarrow> (Some e, st)
            | Inr nextRun \<Rightarrow>
                (case createTask (newTask cfg agentName fld jid it nextRun) st of
                   (Some e, st') \<Rightarrow> (Some e, st')
                 | (None, st') \<Rightarrow>
                     createTasks cfg agentName fld jid items
                       (log (''  Created task: '' @ itemTaskId cfg agentName it @ '' (''
                             @ the (itemCron it) @ '')'') st'))))"

text \<open>\<open>handleCreate\<close> after its checks, up to the settings file: the shared directory
  structure, the group folder with CLAUDE.md, the registration, the settings.\<close>

definition createProvision :: "config \<Rightarrow> string \<Rightarrow> string \<Rightarrow> string option \<Rightarrow> string \<Rightarrow> mount list
    \<Rightarrow> state \<Rightarrow> state" where
  "createProvision cfg agentName body mdl claudeMdContent allMounts st =
     (let fld = agentName @ ''-specialist'';
          jid = ''agent:'' @ fld;
          st1 = foldl (\<lambda>s d. mkdirSync d s) st (partitionDirs cfg agentName);
          groupDir = pathJoin [GROUPS_DIR cfg, fld];
          st2 = writeFileSync (pathJoin [groupDir, ''CLAUDE.md'']) claudeMdContent
                  (mkdirSync (pathJoin [groupDir, ''logs'']) st1);
          grp = \<lparr>name = map toUpperChar (take 1 agentName) @ drop 1 agentName @ '' Specialist'',
                 folder = fld, trigger = ''@andy'', added_at = nowISO cfg,
                 containerConfig = Some \<lparr>additionalMounts = Some allMounts, timeout = Some 600000\<rparr>,
                 requiresTrigger = False\<rparr>;
          st3 = setRegisteredGroup jid grp st2;
          settingsDir = pathJoin [DATA_DIR cfg, ''sessions'', fld, ''.claude'']
      in writeFileSync (pathJoin [settingsDir, ''settings.json''])
           (jsonStringify cfg (createEnvVars cfg body mdl)) (mkdirSync settingsDir st3))"

text \<open>\<open>handleCreate\<close> from the creation of the directories to its end: every check has
  passed.\<close>

definition createApply :: "config \<Rightarrow> string \<Rightarrow> string \<Rightarrow> string option \<Rightarrow> string \<Rightarrow> mount list
    \<Rightarrow> state \<Rightarrow> outcome" where
  "createApply cfg agentName body mdl claudeMdContent allMounts st =
     (let fld = agentName @ ''-specialist'';
          jid = ''agent:'' @ fld;
          st4 = createProvision cfg agentName body mdl claudeMdContent allMounts st
      in andThen
           (case parseSection body [''Scheduled Tasks'', ''Tasks''] of
              None \<Rightarrow> (None, st4)
            | Some tasksSection \<Rightarrow> createTasks cfg agentName fld jid (parseYamlList tasksSection) st4)
           (\<lambda>st5. (None, log (''  Agent '' @ quoted agentName @ '' created -> folder: '' @ fld
                               @ '', JID: '' @ jid) st5)))"

definition handleCreate :: "config \<Rightarrow> string \<Rightarrow> string \<Rightarrow> string option \<Rightarrow> state \<Rightarrow> outcome" where
  "handleCreate cfg agentName body mdl st =
     (let fld = agentName @ ''-specialist'';
          jid = ''agent:'' @ fld
      in if \<not> isValidGroupFolder cfg fld then (Some (''Invalid folder name: '' @ fld), st)
         else if getRegisteredGroup st jid \<noteq> None
         then (Some (''Agent '' @ quoted agentName @ '' already exists (JID: '' @ jid @ '')''), st)
         else (case parseSection body [''CLAUDE.md''] of
                 None \<Rightarrow> (Some ''Missing ## CLAUDE.md section'', st)
               | Some claudeMdSection \<Rightarrow>
                   (let claudeMdContent = blockOrSection claudeMdSection;
                        lineCount = length (splitLines claudeMdContent)
                    in if lineCount > MAX_CLAUDE_MD_LINES
                       then (Some (''CLAUDE.md is '' @ showNat lineCount @ '' lines (max ''
                                   @ showNat MAX_CLAUDE_MD_LINES @ '')''), st)
                       else (let customMounts = (case parseSection body [''Mounts''] of
                                                   None \<Rightarrow> []
                                                 | Some mountsSection \<Rightarrow> parseMounts mountsSection);
                                 allMounts = standardMounts cfg agentName @ customMounts
                             in case validateMountsIsolation cfg agentName allMounts of
                                  Some isolationError \<Rightarrow> (Some isolationError, st)
                                | None \<Rightarrow>
                                    createApply cfg agentName body mdl claudeMdContent allMounts st))))"

subsection \<open>Modify\<close>

fun findOrchestratorJid :: "(string \<times> RegisteredGroup) list \<Rightarrow> string" where
  "findOrchestratorJid [] = []"
| "findOrchestratorJid ((jid, g) # gs) = (if folder g = ''main'' then jid else findOrchestratorJid gs)"

text \<open>The head of \<open>handleModify\<close>: the folder, the JID and the group it works on.\<close>

definition resolveTarget :: "state \<Rightarrow> string \<Rightarrow> string \<times> string \<times> RegisteredGroup option" where
  "resolveTarget st agentName =
     (let fld0 = agentName;
          jid0 = ''agent:'' @ fld0;
          group0 = getRegisteredGroup st jid0;
          (fld1, jid1, group1) =
            (if group0 = None \<and> \<not> endsWith fld0 ''-specialist''
             then (agentName @ ''-specialist'', ''agent:'' @ agentName @ ''-specialist'',
                   getRegisteredGroup st (''agent:'' @ agentName @ ''-specialist''))
             else (fld0, jid0, group0))
      in if toLowerCase agentName \<in> SELF_MOD_NAMES
         then (let jid2 = findOrchestratorJid (getAllRegisteredGroups st)
               in (''main'', jid2, if jid2 \<noteq> [] then getRegisteredGroup st jid2 else None))
         else (fld1, jid1, group1))"

definition claudeMdPath :: "config \<Rightarrow> string \<Rightarrow> string" where
  "claudeMdPath cfg fld = pathJoin [GROUPS_DIR cfg, fld, ''CLAUDE.md'']"

definition settingsPath :: "config \<Rightarrow> string \<Rightarrow> string" where
  "settingsPath cfg fld = pathJoin [DATA_DIR cfg, ''sessions'', fld, ''.claude'', ''settings.json'']"

text \<open>Update CLAUDE.md if provided.\<close>

definition modifyClaudeMd :: "config \<Rightarrow> string \<Rightarrow> string \<Rightarrow> state \<Rightarrow> outcome" where
  "modifyClaudeMd cfg fld body st =
     (case parseSection body [''CLAUDE.md''] of
        None \<Rightarrow> (None, st)
      | Some claudeMdSection \<Rightarrow>
          (let claudeMdContent = blockOrSection claudeMdSection;
               lineCount = length (splitLines claudeMdContent)
           in if lineCount > MAX_CLAUDE_MD_LINES
              then (Some (''CLAUDE.md is '' @ showNat lineCount @ '' lines (max ''
                          @ showNat MAX_CLAUDE_MD_LINES @ '')''), st)
              else (None, log (''  Updated CLAUDE.md for '' @ fld)
                            (writeFileSync (claudeMdPath cfg fld) claudeMdContent st))))"

text \<open>Append to CLAUDE.md if provided.\<close>

definition appendClaudeMd :: "config \<Rightarrow> string \<Rightarrow> string \<Rightarrow> state \<Rightarrow> outcome" where
  "appendClaudeMd cfg fld body st =
     (case parseSection body [''Append to CLAUDE.md''] of
        None \<Rightarrow> (None, st)
      | Some appendSection \<Rightarrow>
          (let appendContent = blockOrSection appendSection;
               existing = (case readFileSync st (claudeMdPath cfg fld) of Some c \<Rightarrow> c | None \<Rightarrow> []);
               combined = trimEnd existing @ ''\<newline>\<newline>'' @ appendContent @ ''\<newline>'';
               lineCount = length (splitLines combined)
           in if lineCount > MAX_CLAUDE_MD_LINES
              then (Some (''CLAUDE.md would be '' @ showNat lineCount @ '' lines after append (max ''
                          @ showNat MAX_CLAUDE_MD_LINES @ '')''), st)
              else (None, log (''  Appended to CLAUDE.md for '' @ fld)
                            (writeFileSync (claudeMdPath cfg fld) combined st))))"

text \<open>The settings file as both of the next steps read it: \<open>{env: {}}\<close> when the file
  does not exist; \<open>JSON.parse\<close> may throw.\<close>

definition readSettings :: "config \<Rightarrow> string \<Rightarrow> state \<Rightarrow> string + item" where
  "readSettings cfg fld st =
     (case readFileSync st (settingsPath cfg fld) of
        None \<Rightarrow> Inr []
      | Some c \<Rightarrow> jsonParse cfg c)"

definition writeSettings :: "config \<Rightarrow> string \<Rightarrow> item \<Rightarrow> state \<Rightarrow> state" where
  "writeSettings cfg fld settingsEnv st =
     writeFileSync (settingsPath cfg fld) (jsonStringify cfg settingsEnv)
       (mkdirSync (dirname (settingsPath cfg fld)) st)"

text \<open>Update model in settings.json.\<close>

definition modifyModel :: "config \<Rightarrow> string \<Rightarrow> string option \<Rightarrow> state \<Rightarrow> outcome" where
  "modifyModel cfg fld mdl st =
     (if truthy mdl
      then (case readSettings cfg fld st of
              Inl e \<Rightarrow> (Some e, st)
            | Inr settingsEnv \<Rightarrow>
                (None, log (''  Updated model to '' @ resolveModel mdl @ '' for '' @ fld)
                         (writeSettings cfg fld
                            (setKey settingsEnv ''CLAUDE_CODE_USE_MODEL'' (resolveModel mdl)) st)))
      else (None, st))"

text \<open>Inject env vars: a value that starts with \<open>$\<close> names a key of \<open>.env\<close>.\<close>

definition injectEntry :: "config \<Rightarrow> item \<Rightarrow> string \<times> string \<Rightarrow> item" where
  "injectEntry cfg settingsEnv kv =
     (case kv of (k, v) \<Rightarrow>
        if startsWith v ''$''
        then (let envKey = drop 1 v;
                  vals = readEnvFile cfg [envKey]
              in if truthy (getKey vals envKey) then setKey settingsEnv envKey (the (getKey vals envKey))
                 else settingsEnv)
        else setKey settingsEnv k v)"

definition modifyEnv :: "config \<Rightarrow> string \<Rightarrow> string \<Rightarrow> state \<Rightarrow> outcome" where
  "modifyEnv cfg fld body st =
     (case parseSection body [''API Keys'', ''Env'', ''Environment''] of
        None \<Rightarrow> (None, st)
      | Some envSection \<Rightarrow>
          (case readSettings cfg fld st of
             Inl e \<Rightarrow> (Some e, st)
           | Inr settingsEnv \<Rightarrow>
               (None, log (''  Updated env vars for '' @ fld)
                        (writeSettings cfg fld
                           (foldl (injectEntry cfg) settingsEnv (concat (parseYamlList envSection)))
                           st))))"

text \<open>\<open>group.containerConfig?.additionalMounts || []\<close>.\<close>

definition mountsOf :: "RegisteredGroup \<Rightarrow> mount list" where
  "mountsOf grp =
     (case containerConfig grp of
        None \<Rightarrow> []
      | Some cc \<Rightarrow> (case additionalMounts cc of None \<Rightarrow> [] | Some ms \<Rightarrow> ms))"

text \<open>The name \<open>handleModify\<close> validates new mounts against:
  \<open>agentName === 'main' || agentName === 'orchestrator' ? 'main' : agentName\<close>.\<close>

definition mountOwnerName :: "string \<Rightarrow> string" where
  "mountOwnerName agentName =
     (if agentName = ''main'' \<or> agentName = ''orchestrator'' then ''main'' else agentName)"

text \<open>Update mounts: the new mounts are validated and appended to the ones the group
  has.\<close>

definition modifyMounts :: "config \<Rightarrow> string \<Rightarrow> string \<Rightarrow> string \<Rightarrow> RegisteredGroup \<Rightarrow> string
    \<Rightarrow> state \<Rightarrow> outcome" where
  "modifyMounts cfg agentName fld jid grp body st =
     (case parseSection body [''Mounts''] of
        None \<Rightarrow> (None, st)
      | Some mountsSection \<Rightarrow>
          (let newMounts = parseMounts mountsSection
           in case validateMountsIsolation cfg (mountOwnerName agentName) newMounts of
                Some isolationError \<Rightarrow> (Some isolationError, st)
              | None \<Rightarrow>
                  (let existingMounts = mountsOf grp;
                       updatedGroup =
                         grp\<lparr>containerConfig :=
                               Some ((case containerConfig grp of
                                        None \<Rightarrow> \<lparr>additionalMounts = None, timeout = None\<rparr>
                                      | Some cc \<Rightarrow> cc)
                                     \<lparr>additionalMounts := Some (existingMounts @ newMounts)\<rparr>)\<rparr>
                   in (None, log (''  Updated mounts for '' @ fld)
                               (setRegisteredGroup jid updatedGroup st)))))"

text \<open>Add/update scheduled tasks: the ids of the group's tasks are read once, before the
  loop.\<close>

fun modifyTasks :: "config \<Rightarrow> string \<Rightarrow> string \<Rightarrow> string \<Rightarrow> string set \<Rightarrow> item list \<Rightarrow> state
    \<Rightarrow> outcome" where
  "modifyTasks cfg agentName fld jid existingIds [] st = (None, st)"
| "modifyTasks cfg agentName fld jid existingIds (it # items) st =
     (if \<not> truthy (itemCron it) \<or> itemPrompt it = []
      then modifyTasks cfg agentName fld jid existingIds items st
      else (case cronNext cfg (the (itemCron it)) of
              Inl e \<Rightarrow> (Some e, st)
            | Inr nextRun \<Rightarrow>
                if itemTaskId cfg agentName it \<in> existingIds
                then modifyTasks cfg agentName fld jid existingIds items
                       (log (''  Updated task: '' @ itemTaskId cfg agentName it)
                          (updateTask (itemTaskId cfg agentName it) (itemPrompt it)
                             (the (itemCron it)) nextRun ''active'' st))
                else (case createTask (newTask cfg agentName fld jid it nextRun) st of
                        (Some e, st') \<Rightarrow> (Some e, st')
                      | (None, st') \<Rightarrow>
                          modifyTasks cfg agentName fld jid existingIds items
                            (log (''  Created task: '' @ itemTaskId cfg agentName it) st'))))"

definition modifyTasksSection :: "config \<Rightarrow> string \<Rightarrow> string \<Rightarrow> string \<Rightarrow> string \<Rightarrow> state \<Rightarrow> outcome" where
  "modifyTasksSection cfg agentName fld jid body st =
     (case parseSection body [''Scheduled Tasks'', ''Tasks''] of
        None \<Rightarrow> (None, st)
      | Some tasksSection \<Rightarrow>
          modifyTasks cfg agentName fld jid (set (map task_id (getTasksForGroup st fld)))
            (parseYamlList tasksSection) st)"

definition handleModify :: "config \<Rightarrow> string \<Rightarrow> string \<Rightarrow> string option \<Rightarrow> state \<Rightarrow> outcome" where
  "handleModify cfg agentName body mdl st =
     (case resolveTarget st agentName of
        (fld, jid, None) \<Rightarrow> (Some (''Agent '' @ quoted agentName @ '' not found''), st)
      | (fld, jid, Some grp) \<Rightarrow>
          andThen (modifyClaudeMd cfg fld body st) (\<lambda>st1.
          andThen (appendClaudeMd cfg fld body st1) (\<lambda>st2.
          andThen (modifyModel cfg fld mdl st2) (\<lambda>st3.
          andThen (modifyEnv cfg fld body st3) (\<lambda>st4.
          andThen (modifyMounts cfg agentName fld jid grp body st4) (\<lambda>st5.
          andThen (modifyTasksSection cfg agentName fld jid body st5) (\<lambda>st6.
          (None, log (''  Agent '' @ quoted agentName @ '' modified'') st6))))))))"

subsection \<open>Delete\<close>

text \<open>The innermost loop of the archiving: every entry of \<open>src\<close> moves to the archive.\<close>

fun archiveFiles :: "string \<Rightarrow> string \<Rightarrow> string list \<Rightarrow> state \<Rightarrow> outcome" where
  "archiveFiles src archiveDir [] st = (None, st)"
| "archiveFiles src archiveDir (f # fs) st =
     andThen (renameSync (pathJoin [src, f]) (pathJoin [archiveDir, f]) st)
       (archiveFiles src archiveDir fs)"

fun archiveSubs :: "string \<Rightarrow> string list \<Rightarrow> state \<Rightarrow> outcome" where
  "archiveSubs agentDir [] st = (None, st)"
| "archiveSubs agentDir (sub # subs) st =
     (let src = pathJoin [agentDir, sub] in
      if \<not> existsSync st src then archiveSubs agentDir subs st
      else (let entries = readdirSync st src;
                archiveDir = pathJoin [agentDir, ''archive'']
            in andThen (archiveFiles src archiveDir entries (mkdirSync archiveDir st))
                 (archiveSubs agentDir subs)))"

fun archiveShared :: "config \<Rightarrow> string \<Rightarrow> string list \<Rightarrow> state \<Rightarrow> outcome" where
  "archiveShared cfg agentName [] st = (None, st)"
| "archiveShared cfg agentName (subdir # subdirs) st =
     (let agentDir = pathJoin [SHARED_DIR cfg, subdir, agentName] in
      if \<not> existsSync st agentDir then archiveShared cfg agentName subdirs st
      else andThen (archiveSubs agentDir [''inbox'', ''active''] st)
             (archiveShared cfg agentName subdirs))"

definition handleDelete :: "config \<Rightarrow> string \<Rightarrow> state \<Rightarrow> outcome" where
  "handleDelete cfg agentName st =
     (let fld0 = agentName;
          jid0 = ''agent:'' @ fld0;
          group0 = getRegisteredGroup st jid0;
          (fld, jid, grp) =
            (if group0 = None \<and> \<not> endsWith fld0 ''-specialist''
             then (agentName @ ''-specialist'', ''agent:'' @ agentName @ ''-specialist'',
                   getRegisteredGroup st (''agent:'' @ agentName @ ''-specialist''))
             else (fld0, jid0, group0))
      in if grp = None then (Some (''Agent '' @ quoted agentName @ '' not found''), st)
         else (let st1 = foldl (\<lambda>s t. log (''  Deleted task: '' @ task_id t) (deleteTask (task_id t) s))
                           st (getTasksForGroup st fld);
                   st2 = deleteRegisteredGroup jid st1;
                   groupDir = pathJoin [GROUPS_DIR cfg, fld];
                   st3 = (if existsSync st2 groupDir then rmSync groupDir st2 else st2);
                   settingsDir = pathJoin [DATA_DIR cfg, ''sessions'', fld];
                   st4 = (if existsSync st3 settingsDir then rmSync settingsDir st3 else st3)
               in andThen (archiveShared cfg agentName [''tasks'', ''results''] st4)
                    (\<lambda>st5. (None, log (''  Agent '' @ quoted agentName
                                        @ '' deleted (archives preserved in shared/)'') st5))))"

section \<open>File processing\<close>

text \<open>\<open>base.replace(/\.(APPLIED|FAILED|PENDING_APPROVAL|APPROVED)$/, '')\<close>.\<close>

fun stripSuffixes :: "string \<Rightarrow> string list \<Rightarrow> string" where
  "stripSuffixes base [] = base"
| "stripSuffixes base (sfx # sfxs) =
     (if endsWith base (''.'' @ sfx) then take (length base - (length sfx + 1)) base
      else stripSuffixes base sfxs)"

definition cleanBase :: "string \<Rightarrow> string" where
  "cleanBase filePath =
     stripSuffixes (basenameMd filePath) [''APPLIED'', ''FAILED'', ''PENDING_APPROVAL'', ''APPROVED'']"

definition newSpecPath :: "string \<Rightarrow> string \<Rightarrow> string" where
  "newSpecPath filePath suffix =
     pathJoin [dirname filePath, cleanBase filePath @ ''.'' @ suffix @ ''.md'']"

definition renameSpec :: "string \<Rightarrow> string \<Rightarrow> string option \<Rightarrow> state \<Rightarrow> outcome" where
  "renameSpec filePath suffix appendText st =
     (if truthy appendText
      then (case readFileSync st filePath of
              None \<Rightarrow> (Some (''ENOENT: no such file or directory, open '' @ filePath), st)
            | Some content \<Rightarrow>
                renameSync filePath (newSpecPath filePath suffix)
                  (writeFileSync filePath
                     (content @ ''\<newline>\<newline>---\<newline>\<newline>'' @ the appendText) st))
      else renameSync filePath (newSpecPath filePath suffix) st)"

definition showOperation :: "operation \<Rightarrow> string" where
  "showOperation opn = (case opn of Create \<Rightarrow> ''create'' | Modify \<Rightarrow> ''modify'' | Delete \<Rightarrow> ''delete'')"

definition pendingNote :: string where
  "pendingNote = ''**Pending owner approval.** This spec targets the Orchestrator. Waiting for rename to .APPROVED.md.''"

definition invalidSpecNote :: string where
  "invalidSpecNote = ''**Error:** Invalid spec format. Missing or malformed YAML frontmatter.\<newline>Expected: `operation`, `agent` fields.''"

text \<open>The \<open>switch\<close> of \<open>processSpecFile\<close>.\<close>

definition dispatchSpec :: "config \<Rightarrow> SpecFrontmatter \<Rightarrow> string \<Rightarrow> state \<Rightarrow> outcome" where
  "dispatchSpec cfg fm body st =
     (case operation fm of
        Create \<Rightarrow> handleCreate cfg (agent fm) body (model fm) st
      | Modify \<Rightarrow> handleModify cfg (agent fm) body (model fm) st
      | Delete \<Rightarrow> handleDelete cfg (agent fm) st)"

text \<open>\<open>try { ...; renameSpec(filePath, 'APPLIED'); log(...) } catch (err) {
  renameSpec(filePath, 'FAILED', `**Error:** ${msg}`); log(...) }\<close>, with the \<open>switch\<close>
  as \<open>run\<close> and the two log lines.\<close>

definition tryApply :: "string \<Rightarrow> string \<Rightarrow> (string \<Rightarrow> string) \<Rightarrow> outcome \<Rightarrow> outcome" where
  "tryApply filePath appliedLine failedLine run =
     (case andThen run (\<lambda>s. andThen (renameSpec filePath ''APPLIED'' None s)
                               (\<lambda>s'. (None, log appliedLine s'))) of
        (None, s) \<Rightarrow> (None, s)
      | (Some msg, s) \<Rightarrow>
          andThen (renameSpec filePath ''FAILED'' (Some (''**Error:** '' @ msg)) s)
            (\<lambda>s'. (None, log (failedLine msg) s')))"

definition processSpecFile :: "config \<Rightarrow> string \<Rightarrow> state \<Rightarrow> outcome" where
  "processSpecFile cfg filePath st =
     (let filename = basename filePath;
          st1 = log (''Processing: '' @ filename) st
      in case readFileSync st1 filePath of
           None \<Rightarrow> (Some (''ENOENT: no such file or directory, open '' @ filePath), st1)
         | Some content \<Rightarrow>
             (case parseFrontmatter content of
                None \<Rightarrow>
                  andThen (renameSpec filePath ''FAILED'' (Some invalidSpecNote) st1)
                    (\<lambda>s. (None, log (''  FAILED: Invalid frontmatter in '' @ filename) s))
              | Some (fm, body) \<Rightarrow>
                  if toLowerCase (agent fm) \<in> SELF_MOD_NAMES \<and> operation fm \<noteq> Delete
                  then andThen (renameSpec filePath ''PENDING_APPROVAL'' (Some pendingNote) st1)
                         (\<lambda>s. (None, log (''  PENDING_APPROVAL: Self-modification detected for ''
                                           @ quoted (agent fm)) s))
                  else if toLowerCase (agent fm) \<in> SELF_MOD_NAMES \<and> operation fm = Delete
                  then andThen (renameSpec filePath ''FAILED''
                                  (Some ''**Error:** Cannot delete the Orchestrator.'') st1)
                         (\<lambda>s. (None, log ''  FAILED: Cannot delete orchestrator'' s))
                  else tryApply filePath
                         (''  APPLIED: '' @ showOperation (operation fm) @ '' '' @ agent fm)
                         (\<lambda>msg. ''  FAILED: '' @ showOperation (operation fm) @ '' '' @ agent fm
                                  @ '' - '' @ msg)
                         (dispatchSpec cfg fm body st1)))"

text \<open>The \<open>switch\<close> of \<open>processApprovedFile\<close>: it has the cases \<open>create\<close> and \<open>modify\<close>
  only.\<close>

definition dispatchApproved :: "config \<Rightarrow> SpecFrontmatter \<Rightarrow> string \<Rightarrow> state \<Rightarrow> outcome" where
  "dispatchApproved cfg fm body st =
     (case operation fm of
        Create \<Rightarrow> handleCreate cfg (agent fm) body (model fm) st
      | Modify \<Rightarrow> handleModify cfg (agent fm) body (model fm) st
      | Delete \<Rightarrow> (None, st))"

definition approvalSeparator :: string where
  "approvalSeparator = ''\<newline>---\<newline>\<newline>**Pending owner approval''"

definition processApprovedFile :: "config \<Rightarrow> string \<Rightarrow> state \<Rightarrow> outcome" where
  "processApprovedFile cfg filePath st =
     (let filename = basename filePath;
          st1 = log (''Processing approved: '' @ filename) st
      in case readFileSync st1 filePath of
           None \<Rightarrow> (Some (''ENOENT: no such file or directory, open '' @ filePath), st1)
         | Some content \<Rightarrow>
             (let cleanContent = beforeFirst content approvalSeparator
              in case parseFrontmatter cleanContent of
                   None \<Rightarrow>
                     renameSpec filePath ''FAILED''
                       (Some ''**Error:** Could not re-parse spec after approval.'') st1
                 | Some (fm, body) \<Rightarrow>
                     tryApply filePath
                       (''  APPLIED (approved): '' @ showOperation (operation fm) @ '' '' @ agent fm)
                       (\<lambda>msg. ''  FAILED (approved): '' @ showOperation (operation fm) @ '' ''
                                @ agent fm @ '' - '' @ msg)
                       (dispatchApproved cfg fm body st1)))"

section \<open>Main poll loop\<close>

text \<open>What the loop of \<open>poll\<close> does with one entry of the directory.\<close>

datatype dispatch = Skip | Approved | Standard

definition classify :: "string \<Rightarrow> dispatch" where
  "classify file =
     (if \<not> endsWith file ''.md'' then Skip
      else if includesStr file ''.APPLIED.'' \<or> includesStr file ''.FAILED.''
              \<or> includesStr file ''.PENDING_APPROVAL.'' then Skip
      else if includesStr file ''.APPROVED.'' then Approved
      else if startsWith file ''create-'' \<or> startsWith file ''modify-''
              \<or> startsWith file ''delete-'' then Standard
      else Skip)"

fun pollFiles :: "config \<Rightarrow> string list \<Rightarrow> state \<Rightarrow> outcome" where
  "pollFiles cfg [] st = (None, st)"
| "pollFiles cfg (file # rest) st =
     (case classify file of
        Skip \<Rightarrow> pollFiles cfg rest st
      | Approved \<Rightarrow>
          andThen (processApprovedFile cfg (pathJoin [AGENT_OPS_DIR cfg, file]) st) (pollFiles cfg rest)
      | Standard \<Rightarrow>
          andThen (processSpecFile cfg (pathJoin [AGENT_OPS_DIR cfg, file]) st) (pollFiles cfg rest))"

definition poll :: "config \<Rightarrow> state \<Rightarrow> outcome" where
  "poll cfg st =
     (let st1 = (if \<not> existsSync st (AGENT_OPS_DIR cfg) then mkdirSync (AGENT_OPS_DIR cfg) st else st)
      in pollFiles cfg (readdirSync st1 (AGENT_OPS_DIR cfg)) st1)"

section \<open>Notions the properties are stated with\<close>

text \<open>A fence line starts with three backquotes. A line is inside a fenced block when
  an odd number of fence lines stands before it.\<close>

definition isFenceLine :: "string \<Rightarrow> bool" where
  "isFenceLine l = startsWith l ''```''"

definition insideFence :: "string list \<Rightarrow> bool" where
  "insideFence pre = odd (length (filter isFenceLine pre))"

text \<open>The text of complete lines, each with its newline.\<close>

definition linesText :: "string list \<Rightarrow> string" where
  "linesText ls = concat (map (\<lambda>l. l @ [CHR 0x0A]) ls)"

fun joinLines :: "string list \<Rightarrow> string" where
  "joinLines [] = []"
| "joinLines [l] = l"
| "joinLines (l # m # ls) = l @ CHR 0x0A # joinLines (m # ls)"

text \<open>Some line of \<open>ls\<close> starts with \<open>## \<close> and is outside every fenced block, where the
  first line is inside one exactly when \<open>inBlock\<close>.\<close>

definition hasBoundary :: "bool \<Rightarrow> string list \<Rightarrow> bool" where
  "hasBoundary inBlock ls =
     (\<exists>pre l post. ls = pre @ l # post \<and> startsWith l ''## '' \<and> (inBlock = insideFence pre))"

text \<open>A configuration and states to run the program on: any folder of word characters
  and dashes is valid, and the cron library rejects the expression \<open>every day\<close>.\<close>

definition exampleConfig :: config where
  "exampleConfig =
     \<lparr>GROUPS_DIR = ''/g'', DATA_DIR = ''/d'',
      isValidGroupFolder = (\<lambda>f. f \<noteq> [] \<and> list_all (\<lambda>c. isWordChar c \<or> c = CHR ''-'') f),
      cronNext = (\<lambda>c. if c = ''every day'' then Inl ''Invalid cron expression''
                       else Inr ''2026-01-05T09:00:00.000Z''),
      readEnvFile = (\<lambda>ks. []),
      jsonStringify = (\<lambda>e. concat (map (\<lambda>(k, v). k @ ''='' @ v @ '';'') e)),
      jsonParse = (\<lambda>s. Inr []),
      nowISO = ''2026-01-01T00:00:00.000Z'', nowMs = 1767225600000\<rparr>"

definition emptyState :: state where
  "emptyState = \<lparr>groups = [], tasks = [], files = [], dirs = [], logs = []\<rparr>"

definition billingBody :: string where
  "billingBody = ''## CLAUDE.md\<newline>```\<newline>You are billing.\<newline>```\<newline>## Mounts\<newline>- host: /data/x\<newline>## Scheduled Tasks\<newline>- id: t1\<newline>  cron: 0 9 * * 1\<newline>  prompt: go''"

definition billingState :: state where
  "billingState = snd (handleCreate exampleConfig ''billing'' billingBody None emptyState)"

text \<open>The custom mounts \<open>handleCreate\<close> reads from a body.\<close>

definition customMountsOf :: "string \<Rightarrow> mount list" where
  "customMountsOf body =
     (case parseSection body [''Mounts''] of None \<Rightarrow> [] | Some mountsSection \<Rightarrow> parseMounts mountsSection)"

text \<open>A create spec with three scheduled tasks, the second with the cron expression the
  library rejects.\<close>

definition schedulesBody :: string where
  "schedulesBody = ''## CLAUDE.md\<newline>You report.\<newline>## Scheduled Tasks\<newline>- id: t1\<newline>  cron: 0 9 * * 1\<newline>  prompt: weekly\<newline>- id: t2\<newline>  cron: every day\<newline>  prompt: daily\<newline>- id: t3\<newline>  cron: 0 18 * * 5\<newline>  prompt: friday''"

definition reportsSpecState :: state where
  "reportsSpecState =
     emptyState\<lparr>files := [(''/g/main/shared/agent-ops/create-reports.md'',
        ''---\<newline>operation: create\<newline>agent: reports\<newline>---\<newline>'' @ schedulesBody)]\<rparr>"

definition weeklyItem :: item where
  "weeklyItem = [(''id'', ''t1''), (''cron'', ''0 9 * * 1''), (''prompt'', ''weekly'')]"

definition dailyItem :: item where
  "dailyItem = [(''id'', ''t2''), (''cron'', ''every day''), (''prompt'', ''daily'')]"

definition fridayItem :: item where
  "fridayItem = [(''id'', ''t3''), (''cron'', ''0 18 * * 5''), (''prompt'', ''friday'')]"






text \<open>The line count of the document a CLAUDE.md section gives, the one of a document
  after an append, and the messages of the two size errors.\<close>

definition documentLines :: "string \<Rightarrow> nat" where
  "documentLines section = length (splitLines (blockOrSection section))"

definition existingDocument :: "config \<Rightarrow> string \<Rightarrow> state \<Rightarrow> string" where
  "existingDocument cfg fld st =
     (case readFileSync st (claudeMdPath cfg fld) of Some c \<Rightarrow> c | None \<Rightarrow> [])"

definition appendedLines :: "string \<Rightarrow> string \<Rightarrow> nat" where
  "appendedLines existing appendSection =
     length (splitLines (trimEnd existing @ ''\<newline>\<newline>'' @ blockOrSection appendSection @ ''\<newline>''))"

definition tooLongMessage :: "nat \<Rightarrow> string" where
  "tooLongMessage n = ''CLAUDE.md is '' @ showNat n @ '' lines (max '' @ showNat 150 @ '')''"

definition tooLongAfterAppendMessage :: "nat \<Rightarrow> string" where
  "tooLongAfterAppendMessage n =
     ''CLAUDE.md would be '' @ showNat n @ '' lines after append (max '' @ showNat 150 @ '')''"

text \<open>A document of \<open>n\<close> lines, and the state of \<open>billing\<close> with a document of 150 lines.\<close>

definition linesDoc :: "nat \<Rightarrow> string" where
  "linesDoc n = concat (replicate (n - 1) ''x\<newline>'') @ ''x''"

definition fullDocState :: state where
  "fullDocState = writeFileSync (claudeMdPath exampleConfig ''billing-specialist'') (linesDoc 150) billingState"

definition doc150Body :: string where
  "doc150Body = ''## CLAUDE.md\<newline>'' @ linesDoc 150"

definition doc151Body :: string where
  "doc151Body = ''## CLAUDE.md\<newline>'' @ linesDoc 151"

definition appendBody :: string where
  "appendBody = ''## Append to CLAUDE.md\<newline>One more line.''"

text \<open>The state after the create of \<open>billing\<close>, with a delete spec for \<open>billing\<close> that
  carries the APPROVED marker, and one for the orchestrator.\<close>

definition approvedDeleteState :: state where
  "approvedDeleteState =
     billingState\<lparr>files := files billingState @
        [(''/g/main/shared/agent-ops/delete-billing.APPROVED.md'',
          ''---\<newline>operation: delete\<newline>agent: billing\<newline>---\<newline>''),
         (''/g/main/shared/agent-ops/delete-orchestrator.APPROVED.md'',
          ''---\<newline>operation: delete\<newline>agent: orchestrator\<newline>---\<newline>'')]\<rparr>"











section \<open>Properties of the section extractor\<close>

lemma splitLines_nonempty: "splitLines s \<noteq> []"
  by (induction s) (auto split: list.splits)

lemma joinLines_splitLines: "joinLines (splitLines s) = s"
proof (induction s)
  case Nil
  then show ?case by simp
next
  case (Cons c cs)
  obtain l ls where sp: "splitLines cs = l # ls"
    using splitLines_nonempty [of cs] by (cases "splitLines cs") auto
  show ?case
  proof (cases "c = CHR 0x0A")
    case True
    with Cons sp show ?thesis by simp
  next
    case False
    with Cons sp show ?thesis by (cases ls) auto
  qed
qed

lemma joinLines_append: "joinLines (pre @ l # post) = linesText pre @ joinLines (l # post)"
proof (induction pre)
  case Nil
  then show ?case by (simp add: linesText_def)
next
  case (Cons a pre)
  then show ?case by (cases pre) (auto simp: linesText_def)
qed

lemma heading_not_fence: "startsWith l ''## '' \<Longrightarrow> \<not> isFenceLine l"
  by (cases l) (auto simp: isFenceLine_def)

lemma hasBoundary_Nil [simp]: "\<not> hasBoundary b []"
  by (simp add: hasBoundary_def)

lemma insideFence_Cons:
  "insideFence (x # pre) = (if isFenceLine x then \<not> insideFence pre else insideFence pre)"
  by (simp add: insideFence_def)

lemma insideFence_Nil [simp]: "\<not> insideFence []"
  by (simp add: insideFence_def)

lemma hasBoundary_Cons:
  "hasBoundary b (x # xs) =
     ((startsWith x ''## '' \<and> \<not> b) \<or> hasBoundary (if isFenceLine x then \<not> b else b) xs)"
proof -
  have "(startsWith x ''## '' \<and> \<not> b) \<or> hasBoundary (if isFenceLine x then \<not> b else b) xs"
    if "hasBoundary b (x # xs)"
  proof -
    from that obtain pre l post where
      *: "x # xs = pre @ l # post" "startsWith l ''## ''" "b = insideFence pre"
      unfolding hasBoundary_def by blast
    show ?thesis
    proof (cases pre)
      case Nil
      with * show ?thesis by simp
    next
      case (Cons y pre')
      with * have "xs = pre' @ l # post" "y = x" by auto
      moreover have "(if isFenceLine x then \<not> b else b) = insideFence pre'"
        using * Cons \<open>y = x\<close> by (simp add: insideFence_Cons)
      ultimately have "hasBoundary (if isFenceLine x then \<not> b else b) xs"
        unfolding hasBoundary_def using *(2) by blast
      then show ?thesis by simp
    qed
  qed
  moreover have "hasBoundary b (x # xs)" if "startsWith x ''## '' \<and> \<not> b"
  proof -
    from that have "x # xs = [] @ x # xs \<and> startsWith x ''## '' \<and> b = insideFence []"
      by simp
    then show ?thesis unfolding hasBoundary_def by blast
  qed
  moreover have "hasBoundary b (x # xs)" if "hasBoundary (if isFenceLine x then \<not> b else b) xs"
  proof -
    from that obtain pre l post where
      *: "xs = pre @ l # post" "startsWith l ''## ''"
         "(if isFenceLine x then \<not> b else b) = insideFence pre"
      unfolding hasBoundary_def by blast
    then have "x # xs = (x # pre) @ l # post \<and> startsWith l ''## '' \<and> b = insideFence (x # pre)"
      by (auto simp: insideFence_Cons split: if_splits)
    then show ?thesis unfolding hasBoundary_def by blast
  qed
  ultimately show ?thesis by blast
qed

lemma findEnd_None: "findEnd b pos ls = None \<Longrightarrow> \<not> hasBoundary b ls"
proof (induction b pos ls rule: findEnd.induct)
  case (1 inCodeBlock pos)
  then show ?case by simp
next
  case (2 inCodeBlock pos line lines)
  then show ?case
    using heading_not_fence [of line]
    by (auto simp: hasBoundary_Cons isFenceLine_def split: if_splits)
qed

lemma findEnd_Some:
  "findEnd b pos ls = Some e \<Longrightarrow>
   \<exists>pre l post. ls = pre @ l # post \<and> startsWith l ''## '' \<and> (b = insideFence pre) \<and>
     \<not> hasBoundary b pre \<and> e = pos + length (linesText pre)"
proof (induction b pos ls rule: findEnd.induct)
  case (1 inCodeBlock pos)
  then show ?case by simp
next
  case (2 inCodeBlock pos line lines)
  show ?case
  proof (cases "startsWith line ''```''")
    case True
    then have "findEnd (\<not> inCodeBlock) (pos + length line + 1) lines = Some e"
      using "2.prems" by simp
    from "2.IH"(1) [OF True this] obtain pre l post where
      *: "lines = pre @ l # post" "startsWith l ''## ''" "(\<not> inCodeBlock) = insideFence pre"
      "\<not> hasBoundary (\<not> inCodeBlock) pre" "e = pos + length line + 1 + length (linesText pre)"
      by blast
    have nh: "\<not> startsWith line ''## ''"
      using heading_not_fence [of line] True by (auto simp: isFenceLine_def)
    have "line # lines = (line # pre) @ l # post \<and> startsWith l ''## '' \<and>
        (inCodeBlock = insideFence (line # pre)) \<and> \<not> hasBoundary inCodeBlock (line # pre) \<and>
        e = pos + length (linesText (line # pre))"
      using * True nh
      by (auto simp: insideFence_Cons hasBoundary_Cons isFenceLine_def linesText_def)
    then show ?thesis by blast
  next
    case False
    show ?thesis
    proof (cases "\<not> inCodeBlock \<and> startsWith line ''## ''")
      case True
      with False "2.prems" have "line # lines = [] @ line # lines \<and> startsWith line ''## '' \<and>
        (inCodeBlock = insideFence []) \<and> \<not> hasBoundary inCodeBlock [] \<and>
        e = pos + length (linesText [])"
        by (auto simp: linesText_def)
      then show ?thesis by blast
    next
      case F2: False
      then have "findEnd inCodeBlock (pos + length line + 1) lines = Some e"
        using "2.prems" False by auto
      from "2.IH"(2) [OF False F2 this] obtain pre l post where
        *: "lines = pre @ l # post" "startsWith l ''## ''" "inCodeBlock = insideFence pre"
        "\<not> hasBoundary inCodeBlock pre" "e = pos + length line + 1 + length (linesText pre)"
        by blast
      have "line # lines = (line # pre) @ l # post \<and> startsWith l ''## '' \<and>
        (inCodeBlock = insideFence (line # pre)) \<and> \<not> hasBoundary inCodeBlock (line # pre) \<and>
        e = pos + length (linesText (line # pre))"
        using * False F2
        by (auto simp: insideFence_Cons hasBoundary_Cons isFenceLine_def linesText_def)
      then show ?thesis by blast
    qed
  qed
qed

lemma sectionText_boundary:
  "(\<exists>pre l post. splitLines rest = pre @ l # post \<and> startsWith l ''## '' \<and> \<not> insideFence pre \<and>
      \<not> hasBoundary False pre \<and> sectionText rest = linesText pre)
   \<or> (\<not> hasBoundary False (splitLines rest) \<and> sectionText rest = rest)"
proof (cases "findEnd False 0 (splitLines rest)")
  case None
  then show ?thesis using findEnd_None [of False 0 "splitLines rest"]
    by (simp add: sectionText_def)
next
  case (Some e)
  from findEnd_Some [OF Some] obtain pre l post where
    *: "splitLines rest = pre @ l # post" "startsWith l ''## ''" "\<not> insideFence pre"
       "\<not> hasBoundary False pre" "e = length (linesText pre)"
    by auto
  have "rest = linesText pre @ joinLines (l # post)"
    using joinLines_splitLines [of rest] * by (simp add: joinLines_append)
  then have "take e rest = linesText pre" using * by simp
  with Some * show ?thesis by (auto simp: sectionText_def)
qed

lemma dropWhile_all: "(\<forall>x\<in>set (dropWhile P xs). P x) \<longleftrightarrow> (\<forall>x\<in>set xs. P x)"
  by (induction xs) auto

lemma trim_empty_iff: "trim s = [] \<longleftrightarrow> list_all isWhiteSpace s"
  by (simp add: trim_def trimEnd_def trimStart_def list_all_iff dropWhile_eq_Nil_conv
      dropWhile_all)

lemmas eval_chars =
  isWhiteSpace_def isLineTerminator_def isWordChar_def canonEq_def toUpperChar_def
  toLowerChar_def toLowerCase_def

lemmas eval_section =
  parseSection_def matchHeading_def altOnly_def altFirst_def altMiddle_def altLast_def
  sectionText_def orNull_def trim_def trimEnd_def trimStart_def eval_chars

text \<open>
  C7 (fence isolation), as the program has it. After the heading that locates the
  section, the section ends at the first line that starts with \<open>## \<close> and has an even
  number of fence lines between the located heading and itself; a line that starts with
  \<open>## \<close> behind an odd number of fence lines is never the end and stays in the section's
  text. Without such a line the section runs to the end of the body. (How the located
  heading itself is found is the matter of \<open>parseSection_start_in_fence\<close>.)
\<close>

theorem parseSection_end_boundary:
  assumes "matchHeading body heading = Some (idx, len)"
  shows "(\<exists>pre l post. splitLines (drop (idx + len) body) = pre @ l # post \<and>
            startsWith l ''## '' \<and> \<not> insideFence pre \<and> \<not> hasBoundary False pre \<and>
            parseSection body heading = orNull (trim (linesText pre)))
         \<or> (\<not> hasBoundary False (splitLines (drop (idx + len) body)) \<and>
            parseSection body heading = orNull (trim (drop (idx + len) body)))"
proof -
  have p: "parseSection body heading = orNull (trim (sectionText (drop (idx + len) body)))"
    using assms by (simp add: parseSection_def)
  from sectionText_boundary [of "drop (idx + len) body"] show ?thesis
  proof
    assume "\<exists>pre l post. splitLines (drop (idx + len) body) = pre @ l # post \<and>
      startsWith l ''## '' \<and> \<not> insideFence pre \<and> \<not> hasBoundary False pre \<and>
      sectionText (drop (idx + len) body) = linesText pre"
    then obtain pre l post where "splitLines (drop (idx + len) body) = pre @ l # post"
      "startsWith l ''## ''" "\<not> insideFence pre" "\<not> hasBoundary False pre"
      "sectionText (drop (idx + len) body) = linesText pre"
      by blast
    with p have "splitLines (drop (idx + len) body) = pre @ l # post \<and>
      startsWith l ''## '' \<and> \<not> insideFence pre \<and> \<not> hasBoundary False pre \<and>
      parseSection body heading = orNull (trim (linesText pre))"
      by simp
    then show ?thesis by blast
  next
    assume "\<not> hasBoundary False (splitLines (drop (idx + len) body)) \<and>
      sectionText (drop (idx + len) body) = drop (idx + len) body"
    with p show ?thesis by simp
  qed
qed

text \<open>The theorem at a body whose \<open>CLAUDE.md\<close> section holds a heading line inside a
  fenced block: that line stays in the section, which ends at the heading after the
  block.\<close>

theorem parseSection_end_boundary_witness:
  "matchHeading ''## CLAUDE.md\<newline>```\<newline># Agent\<newline>## Mounts\<newline>```\<newline>## Scheduled Tasks\<newline>- id: t''
     [''CLAUDE.md''] = Some (0, 12) \<and>
   parseSection ''## CLAUDE.md\<newline>```\<newline># Agent\<newline>## Mounts\<newline>```\<newline>## Scheduled Tasks\<newline>- id: t''
     [''CLAUDE.md''] = Some ''```\<newline># Agent\<newline>## Mounts\<newline>```'' \<and>
   hasBoundary False (splitLines (drop 12 ''## CLAUDE.md\<newline>```\<newline># Agent\<newline>## Mounts\<newline>```\<newline>## Scheduled Tasks\<newline>- id: t''))"
proof -
  let ?b = "''## CLAUDE.md\<newline>```\<newline># Agent\<newline>## Mounts\<newline>```\<newline>## Scheduled Tasks\<newline>- id: t''"
  have m: "matchHeading ?b [''CLAUDE.md''] = Some (0, 12)"
    by (simp add: eval_section)
  have p: "parseSection ?b [''CLAUDE.md''] = Some ''```\<newline># Agent\<newline>## Mounts\<newline>```''"
    by (simp add: eval_section)
  have "\<not> (\<not> hasBoundary False (splitLines (drop (0 + 12) ?b)) \<and>
            parseSection ?b [''CLAUDE.md''] = orNull (trim (drop (0 + 12) ?b)))"
    by (simp add: p orNull_def trim_def trimEnd_def trimStart_def eval_chars)
  with parseSection_end_boundary [OF m] m p show ?thesis
    by (auto simp: hasBoundary_def)
qed

text \<open>
  C7 as the claim states it fails for the heading that locates the section's start: the
  regular expression is matched against the whole body, fences or not. Here the only
  \<open>## Mounts\<close> line stands inside the fenced block of the \<open>CLAUDE.md\<close> section, and the
  extractor takes it for the start of a mounts section.
\<close>

theorem parseSection_start_in_fence:
  "splitLines ''## CLAUDE.md\<newline>```\<newline># Agent\<newline>## Mounts\<newline>- host: /etc\<newline>```''
     = [''## CLAUDE.md'', ''```'', ''# Agent''] @ ''## Mounts'' # [''- host: /etc'', ''```''] \<and>
   insideFence [''## CLAUDE.md'', ''```'', ''# Agent''] \<and>
   matchHeading ''## CLAUDE.md\<newline>```\<newline># Agent\<newline>## Mounts\<newline>- host: /etc\<newline>```'' [''Mounts'']
     = Some (length (linesText [''## CLAUDE.md'', ''```'', ''# Agent'']), 9) \<and>
   parseSection ''## CLAUDE.md\<newline>```\<newline># Agent\<newline>## Mounts\<newline>- host: /etc\<newline>```'' [''Mounts'']
     = Some ''- host: /etc\<newline>```''"
  by (simp add: eval_section insideFence_def isFenceLine_def linesText_def)

text \<open>
  C9, as the program has it: the extractor returns null when no heading matches and
  also when a heading matches and the text of its section is white space only; the two
  cases give the same null. A result that is not null is never empty.
\<close>

theorem parseSection_None_iff:
  "(parseSection body heading = None) =
     (case matchHeading body heading of
        None \<Rightarrow> True
      | Some (idx, len) \<Rightarrow> list_all isWhiteSpace (sectionText (drop (idx + len) body)))"
  by (auto simp: parseSection_def orNull_def trim_empty_iff split: option.splits)

text \<open>C9 as the claim states it fails: the mounts section is present and empty, and the
  result is the null of an absent section.\<close>

theorem parseSection_empty_section_is_null:
  "matchHeading ''## Mounts\<newline>\<newline>## Scheduled Tasks\<newline>- id: t1'' [''Mounts''] = Some (0, 10) \<and>
   parseSection ''## Mounts\<newline>\<newline>## Scheduled Tasks\<newline>- id: t1'' [''Mounts''] = None \<and>
   matchHeading ''## Scheduled Tasks\<newline>- id: t1'' [''Mounts''] = None \<and>
   parseSection ''## Scheduled Tasks\<newline>- id: t1'' [''Mounts''] = None"
  by (simp add: eval_section)

section \<open>Properties of create\<close>

lemma createTask_frame:
  "createTask t st = (r, st') \<Longrightarrow> groups st' = groups st \<and> dirs st' = dirs st \<and> files st' = files st"
  by (auto simp: createTask_def split: if_splits)

lemma createTasks_frame:
  "createTasks cfg a f j items st = (r, st') \<Longrightarrow>
   groups st' = groups st \<and> dirs st' = dirs st \<and> files st' = files st"
proof (induction items arbitrary: st)
  case Nil
  then show ?case by simp
next
  case (Cons it items)
  show ?case
  proof (cases "\<not> truthy (itemCron it) \<or> itemPrompt it = []")
    case True
    with Cons show ?thesis by simp
  next
    case False
    show ?thesis
    proof (cases "cronNext cfg (the (itemCron it))")
      case (Inl e)
      with False Cons.prems show ?thesis by simp
    next
      case (Inr nextRun)
      obtain r1 s1 where c: "createTask (newTask cfg a f j it nextRun) st = (r1, s1)"
        by (cases "createTask (newTask cfg a f j it nextRun) st")
      note fr = createTask_frame [OF c]
      show ?thesis
      proof (cases r1)
        case None
        with False Inr c Cons.prems have
          "createTasks cfg a f j items
             (log (''  Created task: '' @ itemTaskId cfg a it @ '' ('' @ the (itemCron it) @ '')'') s1)
           = (r, st')"
          by simp
        from Cons.IH [OF this] fr show ?thesis by (simp add: log_def)
      next
        case (Some e)
        with False Inr c Cons.prems fr show ?thesis by simp
      qed
    qed
  qed
qed

lemma map_of_setGroup: "map_of (setGroup gs jid g) jid = Some g"
  by (induction gs) auto

lemma dirs_mkdirSync: "set (dirs (mkdirSync p st)) = set (dirs st) \<union> set (dirsOf p)"
  by (auto simp: mkdirSync_def)

lemma self_in_dirsOf: "p \<in> set (dirsOf p)"
  by (simp add: dirsOf_def)

lemma dirs_foldl_mkdirSync:
  "set (dirs st) \<union> set ps \<subseteq> set (dirs (foldl (\<lambda>s d. mkdirSync d s) st ps))"
proof (induction ps arbitrary: st)
  case Nil
  then show ?case by simp
next
  case (Cons p ps)
  have "set (dirs (mkdirSync p st)) \<union> set ps
        \<subseteq> set (dirs (foldl (\<lambda>s d. mkdirSync d s) (mkdirSync p st) ps))"
    by (rule Cons.IH)
  then show ?case using self_in_dirsOf [of p] by (auto simp: dirs_mkdirSync)
qed

lemma andThen_log_frame:
  "andThen x (\<lambda>st5. (None, log m st5)) = (r, st') \<Longrightarrow>
   groups st' = groups (snd x) \<and> dirs st' = dirs (snd x) \<and> files st' = files (snd x) \<and>
   tasks st' = tasks (snd x)"
  by (cases x; cases "fst x") (auto simp: andThen_def log_def)

lemma createProvision_group:
  "getRegisteredGroup (createProvision cfg a body mdl content mounts st) (''agent:'' @ a @ ''-specialist'') =
     Some \<lparr>name = map toUpperChar (take 1 a) @ drop 1 a @ '' Specialist'',
           folder = a @ ''-specialist'', trigger = ''@andy'', added_at = nowISO cfg,
           containerConfig = Some \<lparr>additionalMounts = Some mounts, timeout = Some 600000\<rparr>,
           requiresTrigger = False\<rparr>"
  by (simp add: createProvision_def Let_def getRegisteredGroup_def writeFileSync_def
      mkdirSync_def setRegisteredGroup_def map_of_setGroup)

lemma createProvision_dirs:
  "set (partitionDirs cfg a) \<subseteq> set (dirs (createProvision cfg a body mdl content mounts st))"
proof -
  have "set (partitionDirs cfg a) \<subseteq> set (dirs (foldl (\<lambda>s d. mkdirSync d s) st (partitionDirs cfg a)))"
    using dirs_foldl_mkdirSync [of st "partitionDirs cfg a"] by simp
  then show ?thesis
    by (auto simp: createProvision_def Let_def writeFileSync_def setRegisteredGroup_def
        dirs_mkdirSync)
qed

lemma createApply_frame:
  assumes "createApply cfg a body mdl content mounts st = (r, st')"
  shows "groups st' = groups (createProvision cfg a body mdl content mounts st)"
    and "dirs st' = dirs (createProvision cfg a body mdl content mounts st)"
    and "files st' = files (createProvision cfg a body mdl content mounts st)"
proof -
  let ?st4 = "createProvision cfg a body mdl content mounts st"
  let ?x = "(case parseSection body [''Scheduled Tasks'', ''Tasks''] of
              None \<Rightarrow> (None, ?st4)
            | Some tasksSection \<Rightarrow>
                createTasks cfg a (a @ ''-specialist'') (''agent:'' @ a @ ''-specialist'')
                  (parseYamlList tasksSection) ?st4)"
  have fr: "groups (snd ?x) = groups ?st4 \<and> dirs (snd ?x) = dirs ?st4 \<and> files (snd ?x) = files ?st4"
  proof (cases "parseSection body [''Scheduled Tasks'', ''Tasks'']")
    case None
    then show ?thesis by simp
  next
    case (Some ts)
    then show ?thesis
      using createTasks_frame [OF surjective_pairing, of cfg a "a @ ''-specialist''"
          "''agent:'' @ a @ ''-specialist''" "parseYamlList ts" ?st4]
      by simp
  qed
  have "andThen ?x (\<lambda>st5. (None, log (''  Agent '' @ quoted a @ '' created -> folder: ''
          @ (a @ ''-specialist'') @ '', JID: '' @ (''agent:'' @ a @ ''-specialist'')) st5)) = (r, st')"
    using assms unfolding createApply_def Let_def .
  from andThen_log_frame [OF this] fr
  show "groups st' = groups ?st4" "dirs st' = dirs ?st4" "files st' = files ?st4"
    by simp_all
qed

lemma handleCreate_success:
  assumes "handleCreate cfg a body mdl st = (None, st')"
  shows "isValidGroupFolder cfg (a @ ''-specialist'')"
    and "getRegisteredGroup st (''agent:'' @ a @ ''-specialist'') = None"
    and "\<exists>sec. parseSection body [''CLAUDE.md''] = Some sec \<and>
           length (splitLines (blockOrSection sec)) \<le> MAX_CLAUDE_MD_LINES \<and>
           validateMountsIsolation cfg a (standardMounts cfg a @ customMountsOf body) = None \<and>
           createApply cfg a body mdl (blockOrSection sec) (standardMounts cfg a @ customMountsOf body) st
             = (None, st')"
  using assms
  by (auto simp: handleCreate_def Let_def customMountsOf_def split: if_splits option.splits)

lemma handleCreate_registered:
  assumes "isValidGroupFolder cfg (a @ ''-specialist'')"
      and "getRegisteredGroup st (''agent:'' @ a @ ''-specialist'') \<noteq> None"
  shows "handleCreate cfg a body mdl st =
           (Some (''Agent '' @ quoted a @ '' already exists (JID: agent:'' @ a @ ''-specialist)''), st)"
  using assms by (simp add: handleCreate_def Let_def)

lemma handleCreate_twice:
  assumes "handleCreate cfg a body mdl st = (None, st')"
  shows "handleCreate cfg a body' mdl' st' =
           (Some (''Agent '' @ quoted a @ '' already exists (JID: agent:'' @ a @ ''-specialist)''), st')"
proof -
  from handleCreate_success(3) [OF assms] obtain sec where
    "createApply cfg a body mdl (blockOrSection sec) (standardMounts cfg a @ customMountsOf body) st
       = (None, st')"
    by blast
  from createApply_frame(1) [OF this]
  have "getRegisteredGroup st' (''agent:'' @ a @ ''-specialist'') \<noteq> None"
    using createProvision_group [of cfg a body mdl "blockOrSection sec"
        "standardMounts cfg a @ customMountsOf body" st]
    by (simp add: getRegisteredGroup_def)
  with handleCreate_success(1) [OF assms] show ?thesis
    by (rule handleCreate_registered)
qed

text \<open>
  C5 (create idempotence boundary). A create for an identifier whose JID is in the
  registry throws the \<open>already exists\<close> error and leaves the whole state as it was: the
  check stands before every effect of the handler. Only the folder-name check stands
  before it, and a name that was created once has passed that check.
\<close>

theorem handleCreate_already_exists:
  assumes "isValidGroupFolder cfg (agentName @ ''-specialist'')"
      and "getRegisteredGroup st (''agent:'' @ agentName @ ''-specialist'') \<noteq> None"
  shows "handleCreate cfg agentName body mdl st =
           (Some (''Agent '' @ quoted agentName @ '' already exists (JID: agent:''
                  @ agentName @ ''-specialist)''), st)"
  using assms by (simp add: handleCreate_def Let_def)

text \<open>Creating \<open>billing\<close> twice: the first create succeeds, the second fails and leaves
  the state of the first.\<close>

lemma billing_created:
  "fst (handleCreate exampleConfig ''billing'' billingBody None emptyState) = None"
  by code_simp

lemma billing_valid: "isValidGroupFolder exampleConfig (''billing'' @ ''-specialist'')"
  by code_simp

theorem handleCreate_already_exists_witness:
  "fst (handleCreate exampleConfig ''billing'' billingBody None emptyState) = None \<and>
   billingState = snd (handleCreate exampleConfig ''billing'' billingBody None emptyState) \<and>
   handleCreate exampleConfig ''billing'' billingBody None billingState =
     (Some (''Agent '' @ quoted ''billing'' @ '' already exists (JID: agent:billing-specialist)''),
      billingState)"
proof -
  have c: "handleCreate exampleConfig ''billing'' billingBody None emptyState = (None, billingState)"
    using billing_created by (simp add: billingState_def prod_eq_iff)
  have r: "getRegisteredGroup billingState (''agent:'' @ ''billing'' @ ''-specialist'') \<noteq> None"
    using handleCreate_success(3) [OF c] createApply_frame(1)
      createProvision_group [of exampleConfig "''billing''" billingBody None]
    by (auto simp: getRegisteredGroup_def)
  from handleCreate_already_exists [OF billing_valid r, of billingBody None] billing_created
  show ?thesis by (simp add: billingState_def)
qed

text \<open>
  C8 (partition naming), as the program has it. A successful create of the identifier
  \<open>agentName\<close> registers the folder \<open>agentName-specialist\<close>; the directories it creates
  and the read-write default mounts are \<open>tasks/agentName\<close>, \<open>results/agentName\<close> and
  \<open>knowledge/agentName\<close> under the shared root: named by the identifier, which is the
  folder without its suffix, and not by the folder.
\<close>

theorem handleCreate_partitions:
  assumes "handleCreate cfg agentName body mdl st = (None, st')"
  shows "(case getRegisteredGroup st' (''agent:'' @ agentName @ ''-specialist'') of
            None \<Rightarrow> False
          | Some g \<Rightarrow>
              folder g = agentName @ ''-specialist'' \<and>
              agentName = take (length (folder g) - length ''-specialist'') (folder g) \<and>
              mountsOf g = standardMounts cfg agentName @ customMountsOf body) \<and>
         map hostPath (standardMounts cfg agentName) =
           [SHARED_DIR cfg @ ''/tasks/'' @ agentName, SHARED_DIR cfg @ ''/results/'' @ agentName,
            SHARED_DIR cfg @ ''/knowledge/'' @ agentName, SHARED_DIR cfg] \<and>
         set [SHARED_DIR cfg @ ''/tasks/'' @ agentName @ ''/inbox'',
              SHARED_DIR cfg @ ''/tasks/'' @ agentName @ ''/active'',
              SHARED_DIR cfg @ ''/tasks/'' @ agentName @ ''/archive'',
              SHARED_DIR cfg @ ''/results/'' @ agentName @ ''/inbox'',
              SHARED_DIR cfg @ ''/results/'' @ agentName @ ''/archive'',
              SHARED_DIR cfg @ ''/knowledge/'' @ agentName,
              SHARED_DIR cfg @ ''/knowledge/'' @ agentName @ ''/archive''] \<subseteq> set (dirs st')"
proof -
  from handleCreate_success(3) [OF assms] obtain sec where
    ap: "createApply cfg agentName body mdl (blockOrSection sec)
           (standardMounts cfg agentName @ customMountsOf body) st = (None, st')"
    by blast
  let ?g = "\<lparr>name = map toUpperChar (take 1 agentName) @ drop 1 agentName @ '' Specialist'',
             folder = agentName @ ''-specialist'', trigger = ''@andy'', added_at = nowISO cfg,
             containerConfig = Some \<lparr>additionalMounts =
                 Some (standardMounts cfg agentName @ customMountsOf body), timeout = Some 600000\<rparr>,
             requiresTrigger = False\<rparr>"
  have g: "getRegisteredGroup st' (''agent:'' @ agentName @ ''-specialist'') = Some ?g"
    using createApply_frame(1) [OF ap] createProvision_group [of cfg agentName body mdl
        "blockOrSection sec" "standardMounts cfg agentName @ customMountsOf body" st]
    by (simp add: getRegisteredGroup_def)
  have d: "set (partitionDirs cfg agentName) \<subseteq> set (dirs st')"
    using createApply_frame(2) [OF ap] createProvision_dirs by simp
  have pd: "partitionDirs cfg agentName =
             [SHARED_DIR cfg @ ''/tasks/'' @ agentName @ ''/inbox'',
              SHARED_DIR cfg @ ''/tasks/'' @ agentName @ ''/active'',
              SHARED_DIR cfg @ ''/tasks/'' @ agentName @ ''/archive'',
              SHARED_DIR cfg @ ''/results/'' @ agentName @ ''/inbox'',
              SHARED_DIR cfg @ ''/results/'' @ agentName @ ''/archive'',
              SHARED_DIR cfg @ ''/knowledge/'' @ agentName,
              SHARED_DIR cfg @ ''/knowledge/'' @ agentName @ ''/archive'']"
    by (simp add: partitionDirs_def)
  have sm: "map hostPath (standardMounts cfg agentName) =
             [SHARED_DIR cfg @ ''/tasks/'' @ agentName, SHARED_DIR cfg @ ''/results/'' @ agentName,
              SHARED_DIR cfg @ ''/knowledge/'' @ agentName, SHARED_DIR cfg]"
    by (simp add: standardMounts_def)
  have "folder ?g = agentName @ ''-specialist'' \<and>
        agentName = take (length (folder ?g) - length ''-specialist'') (folder ?g) \<and>
        mountsOf ?g = standardMounts cfg agentName @ customMountsOf body"
    by (simp add: mountsOf_def)
  then have "(case getRegisteredGroup st' (''agent:'' @ agentName @ ''-specialist'') of
            None \<Rightarrow> False
          | Some g \<Rightarrow>
              folder g = agentName @ ''-specialist'' \<and>
              agentName = take (length (folder g) - length ''-specialist'') (folder g) \<and>
              mountsOf g = standardMounts cfg agentName @ customMountsOf body)"
    unfolding g option.case .
  moreover from d pd have "set [SHARED_DIR cfg @ ''/tasks/'' @ agentName @ ''/inbox'',
              SHARED_DIR cfg @ ''/tasks/'' @ agentName @ ''/active'',
              SHARED_DIR cfg @ ''/tasks/'' @ agentName @ ''/archive'',
              SHARED_DIR cfg @ ''/results/'' @ agentName @ ''/inbox'',
              SHARED_DIR cfg @ ''/results/'' @ agentName @ ''/archive'',
              SHARED_DIR cfg @ ''/knowledge/'' @ agentName,
              SHARED_DIR cfg @ ''/knowledge/'' @ agentName @ ''/archive''] \<subseteq> set (dirs st')"
    by (simp only:)
  ultimately show ?thesis using sm by (intro conjI)
qed

lemma billing_customMounts:
  "customMountsOf billingBody = [\<lparr>hostPath = ''/data/x'', containerPath = ''x'', readonly = False\<rparr>]"
  by code_simp

text \<open>The theorem at the create of \<open>billing\<close>.\<close>

theorem handleCreate_partitions_witness:
  "handleCreate exampleConfig ''billing'' billingBody None emptyState = (None, billingState) \<and>
   (case getRegisteredGroup billingState ''agent:billing-specialist'' of
      None \<Rightarrow> False
    | Some g \<Rightarrow>
        folder g = ''billing-specialist'' \<and>
        map hostPath (mountsOf g) =
          [''/g/main/shared/tasks/billing'', ''/g/main/shared/results/billing'',
           ''/g/main/shared/knowledge/billing'', ''/g/main/shared'', ''/data/x'']) \<and>
   ''/g/main/shared/tasks/billing/inbox'' \<in> set (dirs billingState)"
proof -
  have c: "handleCreate exampleConfig ''billing'' billingBody None emptyState = (None, billingState)"
    using billing_created by (simp add: billingState_def prod_eq_iff)
  have sd: "SHARED_DIR exampleConfig = ''/g/main/shared''"
    by (simp add: SHARED_DIR_def exampleConfig_def)
  note th = handleCreate_partitions [OF c]
  have d: "''/g/main/shared/tasks/billing/inbox'' \<in> set (dirs billingState)"
    using th [THEN conjunct2, THEN conjunct2] by (simp add: sd)
  have m: "map hostPath (standardMounts exampleConfig ''billing'') =
          [''/g/main/shared/tasks/billing'', ''/g/main/shared/results/billing'',
           ''/g/main/shared/knowledge/billing'', ''/g/main/shared'']"
    using th [THEN conjunct2, THEN conjunct1] by (simp add: sd)
  have "(case getRegisteredGroup billingState ''agent:billing-specialist'' of
      None \<Rightarrow> False
    | Some g \<Rightarrow>
        folder g = ''billing-specialist'' \<and>
        map hostPath (mountsOf g) =
          [''/g/main/shared/tasks/billing'', ''/g/main/shared/results/billing'',
           ''/g/main/shared/knowledge/billing'', ''/g/main/shared'', ''/data/x''])"
  proof (cases "getRegisteredGroup billingState ''agent:billing-specialist''")
    case None
    with th [THEN conjunct1] show ?thesis by simp
  next
    case (Some g)
    have k: "folder g = ''billing-specialist'' \<and>
        ''billing'' = take (length (folder g) - length ''-specialist'') (folder g) \<and>
        mountsOf g = standardMounts exampleConfig ''billing'' @ customMountsOf billingBody"
      using th [THEN conjunct1] by (simp only: append_Cons append_Nil Some option.case)
    from k have k1: "folder g = ''billing-specialist''" by (rule conjunct1)
    from k have k2: "mountsOf g = standardMounts exampleConfig ''billing'' @ customMountsOf billingBody"
      by (rule conjunct2 [THEN conjunct2])
    from k1 k2 Some m show ?thesis by (simp add: billing_customMounts)
  qed
  with c d show ?thesis by (intro conjI)
qed

text \<open>
  C8 as the claim states it fails: after the create of \<open>billing\<close> the registered folder is
  \<open>billing-specialist\<close>, while the mounts that are not read-only and the directories
  under \<open>tasks\<close> are those of \<open>billing\<close>; nothing is named \<open>tasks/billing-specialist\<close>.
\<close>

theorem partitions_not_named_by_folder:
  "(case handleCreate exampleConfig ''billing'' billingBody None emptyState of
      (e, s) \<Rightarrow> (e, map (\<lambda>(jid, g). (jid, folder g, map hostPath (filter (\<lambda>m. \<not> readonly m) (mountsOf g)))) (groups s),
                  filter (\<lambda>d. startsWith d ''/g/main/shared/tasks/'') (dirs s))) =
     (None, [(''agent:billing-specialist'', ''billing-specialist'',
       [''/g/main/shared/tasks/billing'', ''/g/main/shared/results/billing'',
        ''/g/main/shared/knowledge/billing'', ''/data/x''])],
     [''/g/main/shared/tasks/billing'', ''/g/main/shared/tasks/billing/inbox'',
      ''/g/main/shared/tasks/billing/active'', ''/g/main/shared/tasks/billing/archive''])"
  by code_simp

section \<open>Properties of the task loops\<close>

lemma createTasks_append:
  "createTasks cfg a f j (xs @ ys) st = andThen (createTasks cfg a f j xs st) (createTasks cfg a f j ys)"
proof (induction xs arbitrary: st)
  case Nil
  then show ?case by (simp add: andThen_def)
next
  case (Cons it xs)
  then show ?case
    by (auto simp: andThen_def split: sum.splits prod.splits option.splits)
qed

lemma modifyTasks_append:
  "modifyTasks cfg a f j ids (xs @ ys) st =
     andThen (modifyTasks cfg a f j ids xs st) (modifyTasks cfg a f j ids ys)"
proof (induction xs arbitrary: st)
  case Nil
  then show ?case by (simp add: andThen_def)
next
  case (Cons it xs)
  then show ?case
    by (auto simp: andThen_def split: sum.splits prod.splits option.splits)
qed

lemma andThen_throw:
  "andThen r (\<lambda>s. (Some e, s)) = (case r of (None, s) \<Rightarrow> (Some e, s) | (Some e', s) \<Rightarrow> (Some e', s))"
  by (auto simp: andThen_def split: prod.splits option.splits)

lemma fst_andThen_None: "fst (andThen r f) = None \<Longrightarrow> fst r = None"
  by (auto simp: andThen_def split: prod.splits option.splits)

lemma fst_case_throw:
  "fst (case r of (None, s) \<Rightarrow> (Some e, s) | (Some e', s) \<Rightarrow> (Some e', s)) \<noteq> None"
  by (auto split: prod.splits option.splits)

text \<open>
  C3 (bad schedule), as the program has it. An entry without a cron expression or
  without a prompt is skipped and the loop goes on. An entry with both whose cron
  expression the library rejects is not skipped: the loop throws at that entry, whatever
  follows it is not processed, and the tasks created from the entries before it stay. So
  the handler fails whenever its tasks section holds such an entry.
\<close>

theorem bad_schedule_aborts:
  assumes "truthy (itemCron it)" and "itemPrompt it \<noteq> []"
      and "cronNext cfg (the (itemCron it)) = Inl e"
  shows "createTasks cfg a f j (pre @ it # post) st =
           (case createTasks cfg a f j pre st of
              (None, st') \<Rightarrow> (Some e, st') | (Some e', st') \<Rightarrow> (Some e', st')) \<and>
         modifyTasks cfg a f j ids (pre @ it # post) st =
           (case modifyTasks cfg a f j ids pre st of
              (None, st') \<Rightarrow> (Some e, st') | (Some e', st') \<Rightarrow> (Some e', st')) \<and>
         (parseSection body [''Scheduled Tasks'', ''Tasks''] = Some ts \<and>
          parseYamlList ts = pre @ it # post \<longrightarrow>
            fst (createApply cfg a body mdl content mounts st) \<noteq> None \<and>
            fst (modifyTasksSection cfg a f j body st) \<noteq> None) \<and>
         (\<not> truthy (itemCron skipped) \<or> itemPrompt skipped = [] \<longrightarrow>
            createTasks cfg a f j (skipped # post) st = createTasks cfg a f j post st \<and>
            modifyTasks cfg a f j ids (skipped # post) st = modifyTasks cfg a f j ids post st)"
proof -
  have c1: "createTasks cfg a f j (it # post) = (\<lambda>s. (Some e, s))" for f j
    using assms by (simp add: fun_eq_iff)
  have m1: "modifyTasks cfg a f j ids (it # post) = (\<lambda>s. (Some e, s))" for f j ids
    using assms by (simp add: fun_eq_iff)
  have C: "createTasks cfg a f j (pre @ it # post) st =
           (case createTasks cfg a f j pre st of
              (None, st') \<Rightarrow> (Some e, st') | (Some e', st') \<Rightarrow> (Some e', st'))" for f j st
    by (simp only: createTasks_append c1 andThen_throw)
  have M: "modifyTasks cfg a f j ids (pre @ it # post) st =
           (case modifyTasks cfg a f j ids pre st of
              (None, st') \<Rightarrow> (Some e, st') | (Some e', st') \<Rightarrow> (Some e', st'))" for f j ids st
    by (simp only: modifyTasks_append m1 andThen_throw)
  have A: "fst (createApply cfg a body mdl content mounts st) \<noteq> None \<and>
           fst (modifyTasksSection cfg a f j body st) \<noteq> None"
    if "parseSection body [''Scheduled Tasks'', ''Tasks''] = Some ts"
      and "parseYamlList ts = pre @ it # post"
  proof
    show "fst (createApply cfg a body mdl content mounts st) \<noteq> None"
    proof
      assume "fst (createApply cfg a body mdl content mounts st) = None"
      then have "fst (createTasks cfg a (a @ ''-specialist'') (''agent:'' @ a @ ''-specialist'')
                   (pre @ it # post) (createProvision cfg a body mdl content mounts st)) = None"
        using that unfolding createApply_def Let_def
        by (auto dest: fst_andThen_None)
      then show False by (simp only: C fst_case_throw)
    qed
    show "fst (modifyTasksSection cfg a f j body st) \<noteq> None"
      using that by (simp only: modifyTasksSection_def option.case M fst_case_throw not_False_eq_True)
  qed
  have S: "createTasks cfg a f j (skipped # post) st = createTasks cfg a f j post st \<and>
           modifyTasks cfg a f j ids (skipped # post) st = modifyTasks cfg a f j ids post st"
    if "\<not> truthy (itemCron skipped) \<or> itemPrompt skipped = []"
    using that by auto
  from C M A S show ?thesis by blast
qed

lemma case_throw_None:
  "fst r = None \<Longrightarrow>
   (case r of (None, s) \<Rightarrow> (Some e, s) | (Some e', s) \<Rightarrow> (Some e', s)) = (Some e, snd r)"
  by (cases r) auto

text \<open>The theorem at the three entries of \<open>schedulesBody\<close>: the first task is created, the
  second entry throws.\<close>

theorem bad_schedule_aborts_witness:
  "truthy (itemCron dailyItem) \<and> itemPrompt dailyItem \<noteq> [] \<and>
   cronNext exampleConfig (the (itemCron dailyItem)) = Inl ''Invalid cron expression'' \<and>
   createTasks exampleConfig ''reports'' ''reports-specialist'' ''agent:reports-specialist''
     ([weeklyItem] @ dailyItem # [fridayItem]) emptyState
     = (Some ''Invalid cron expression'',
        snd (createTasks exampleConfig ''reports'' ''reports-specialist''
               ''agent:reports-specialist'' [weeklyItem] emptyState)) \<and>
   map task_id (tasks (snd (createTasks exampleConfig ''reports'' ''reports-specialist''
                              ''agent:reports-specialist'' [weeklyItem] emptyState))) = [''t1'']"
proof -
  have h1: "truthy (itemCron dailyItem)" by code_simp
  have h2: "itemPrompt dailyItem \<noteq> []" by code_simp
  have h3: "cronNext exampleConfig (the (itemCron dailyItem)) = Inl ''Invalid cron expression''"
    by code_simp
  have p: "fst (createTasks exampleConfig ''reports'' ''reports-specialist''
                  ''agent:reports-specialist'' [weeklyItem] emptyState) = None"
    by code_simp
  have t: "map task_id (tasks (snd (createTasks exampleConfig ''reports'' ''reports-specialist''
                              ''agent:reports-specialist'' [weeklyItem] emptyState))) = [''t1'']"
    by code_simp
  have e: "createTasks exampleConfig ''reports'' ''reports-specialist'' ''agent:reports-specialist''
             ([weeklyItem] @ dailyItem # [fridayItem]) emptyState
           = (case createTasks exampleConfig ''reports'' ''reports-specialist''
                     ''agent:reports-specialist'' [weeklyItem] emptyState of
                (None, st') \<Rightarrow> (Some ''Invalid cron expression'', st')
              | (Some e', st') \<Rightarrow> (Some e', st'))"
    using bad_schedule_aborts [OF h1 h2 h3] by (rule conjunct1)
  have "createTasks exampleConfig ''reports'' ''reports-specialist'' ''agent:reports-specialist''
          ([weeklyItem] @ dailyItem # [fridayItem]) emptyState
        = (Some ''Invalid cron expression'',
           snd (createTasks exampleConfig ''reports'' ''reports-specialist''
                  ''agent:reports-specialist'' [weeklyItem] emptyState))"
    by (simp only: e case_throw_None [OF p])
  with h1 h2 h3 t show ?thesis by (intro conjI)
qed

text \<open>
  C3 as the claim states it fails: the create of \<open>reports\<close> with a rejected cron
  expression in its second entry throws, the third task is never created, and the spec
  file ends as FAILED.
\<close>

theorem bad_cron_fails_whole_spec:
  "parseYamlList (the (parseSection schedulesBody [''Scheduled Tasks'', ''Tasks'']))
     = [weeklyItem, dailyItem, fridayItem] \<and>
   (case handleCreate exampleConfig ''reports'' schedulesBody None emptyState of
      (e, s) \<Rightarrow> (e, map task_id (tasks s)))
     = (Some ''Invalid cron expression'', [''t1'']) \<and>
   map fst (files (snd (processSpecFile exampleConfig ''/g/main/shared/agent-ops/create-reports.md''
       reportsSpecState))) =
     [''/g/main/shared/agent-ops/create-reports.FAILED.md'',
      ''/g/reports-specialist/CLAUDE.md'',
      ''/d/sessions/reports-specialist/.claude/settings.json'']"
  by code_simp

section \<open>Properties of the mount validator\<close>


lemma startsWith_iff: "startsWith s p \<longleftrightarrow> (\<exists>r. s = p @ r)"
proof (induction s p rule: startsWith.induct)
  case (1 s)
  then show ?case by simp
next
  case (2 p ps)
  then show ?case by simp
next
  case (3 c cs p ps)
  then show ?case by auto
qed

lemma isUnder_iff:
  "isUnder p d \<longleftrightarrow> (\<exists>r. p = d @ r \<and> (r = [] \<or> hd r = CHR ''/''))"
proof
  assume "isUnder p d"
  then consider "p = d" | r where "p = (d @ ''/'') @ r"
    unfolding isUnder_def startsWith_iff by blast
  then show "\<exists>r. p = d @ r \<and> (r = [] \<or> hd r = CHR ''/'')"
  proof cases
    case 1
    then show ?thesis by simp
  next
    case 2
    then have "p = d @ (CHR ''/'' # r) \<and> hd (CHR ''/'' # r) = CHR ''/''" by simp
    then show ?thesis by blast
  qed
next
  assume "\<exists>r. p = d @ r \<and> (r = [] \<or> hd r = CHR ''/'')"
  then obtain r where r: "p = d @ r" "r = [] \<or> hd r = CHR ''/''" by blast
  show "isUnder p d"
  proof (cases r)
    case Nil
    with r show ?thesis by (simp add: isUnder_def)
  next
    case (Cons c cs)
    with r have "p = (d @ ''/'') @ cs" by simp
    then show ?thesis unfolding isUnder_def startsWith_iff by blast
  qed
qed
















section \<open>Properties of the size check\<close>

text \<open>
  C4 (size boundary). With a CLAUDE.md section whose document has \<open>n\<close> lines, create
  goes on to the mount validation when \<open>n \<le> 150\<close> and throws with the state unchanged
  when \<open>n > 150\<close>; the CLAUDE.md step of modify writes the document when \<open>n \<le> 150\<close>, and
  modify throws with the state unchanged when \<open>n > 150\<close>. An append whose combined content
  counts more than 150 lines makes modify throw with the state as it was when the append
  step began: the combined content is checked before the append's write, so the document
  is not modified by it (and the whole state is unchanged when the spec has no CLAUDE.md
  section of its own).
\<close>

theorem claudeMd_size_boundary:
  "(isValidGroupFolder cfg (a @ ''-specialist'') \<and>
    getRegisteredGroup st (''agent:'' @ a @ ''-specialist'') = None \<and>
    parseSection body [''CLAUDE.md''] = Some sec \<longrightarrow>
      (if documentLines sec \<le> 150
       then handleCreate cfg a body mdl st =
              (case validateMountsIsolation cfg a (standardMounts cfg a @ customMountsOf body) of
                 Some e \<Rightarrow> (Some e, st)
               | None \<Rightarrow> createApply cfg a body mdl (blockOrSection sec)
                           (standardMounts cfg a @ customMountsOf body) st)
       else handleCreate cfg a body mdl st = (Some (tooLongMessage (documentLines sec)), st))) \<and>
   (resolveTarget st a = (fld, jid, grp) \<and> grp \<noteq> None \<and>
    parseSection body [''CLAUDE.md''] = Some sec \<longrightarrow>
      (if documentLines sec \<le> 150
       then modifyClaudeMd cfg fld body st =
              (None, log (''  Updated CLAUDE.md for '' @ fld)
                       (writeFileSync (claudeMdPath cfg fld) (blockOrSection sec) st))
       else handleModify cfg a body mdl st = (Some (tooLongMessage (documentLines sec)), st))) \<and>
   (resolveTarget st a = (fld, jid, grp) \<and> grp \<noteq> None \<and>
    modifyClaudeMd cfg fld body st = (None, st') \<and>
    parseSection body [''Append to CLAUDE.md''] = Some asec \<and>
    150 < appendedLines (existingDocument cfg fld st') asec \<longrightarrow>
      handleModify cfg a body mdl st =
        (Some (tooLongAfterAppendMessage (appendedLines (existingDocument cfg fld st') asec)), st')) \<and>
   (parseSection body [''CLAUDE.md''] = None \<longrightarrow> modifyClaudeMd cfg fld body st = (None, st))"
proof (intro conjI impI)
  assume h: "isValidGroupFolder cfg (a @ ''-specialist'') \<and>
    getRegisteredGroup st (''agent:'' @ a @ ''-specialist'') = None \<and>
    parseSection body [''CLAUDE.md''] = Some sec"
  then show "if documentLines sec \<le> 150
       then handleCreate cfg a body mdl st =
              (case validateMountsIsolation cfg a (standardMounts cfg a @ customMountsOf body) of
                 Some e \<Rightarrow> (Some e, st)
               | None \<Rightarrow> createApply cfg a body mdl (blockOrSection sec)
                           (standardMounts cfg a @ customMountsOf body) st)
       else handleCreate cfg a body mdl st = (Some (tooLongMessage (documentLines sec)), st)"
    by (simp add: handleCreate_def Let_def documentLines_def MAX_CLAUDE_MD_LINES_def
        tooLongMessage_def customMountsOf_def [symmetric])
next
  assume h: "resolveTarget st a = (fld, jid, grp) \<and> grp \<noteq> None \<and>
    parseSection body [''CLAUDE.md''] = Some sec"
  then obtain g where g: "grp = Some g" by auto
  with h show "if documentLines sec \<le> 150
       then modifyClaudeMd cfg fld body st =
              (None, log (''  Updated CLAUDE.md for '' @ fld)
                       (writeFileSync (claudeMdPath cfg fld) (blockOrSection sec) st))
       else handleModify cfg a body mdl st = (Some (tooLongMessage (documentLines sec)), st)"
    by (simp add: handleModify_def modifyClaudeMd_def andThen_def Let_def documentLines_def
        MAX_CLAUDE_MD_LINES_def tooLongMessage_def)
next
  assume h: "resolveTarget st a = (fld, jid, grp) \<and> grp \<noteq> None \<and>
    modifyClaudeMd cfg fld body st = (None, st') \<and>
    parseSection body [''Append to CLAUDE.md''] = Some asec \<and>
    150 < appendedLines (existingDocument cfg fld st') asec"
  then obtain g where g: "grp = Some g" by auto
  have "appendClaudeMd cfg fld body st' =
          (Some (tooLongAfterAppendMessage (appendedLines (existingDocument cfg fld st') asec)), st')"
    using h by (simp add: appendClaudeMd_def Let_def appendedLines_def existingDocument_def
        MAX_CLAUDE_MD_LINES_def tooLongAfterAppendMessage_def)
  with h g show "handleModify cfg a body mdl st =
        (Some (tooLongAfterAppendMessage (appendedLines (existingDocument cfg fld st') asec)), st')"
    by (simp add: handleModify_def andThen_def)
next
  assume "parseSection body [''CLAUDE.md''] = None"
  then show "modifyClaudeMd cfg fld body st = (None, st)"
    by (simp add: modifyClaudeMd_def)
qed

lemma doc_sections:
  "parseSection doc150Body [''CLAUDE.md''] = Some (linesDoc 150)"
  "parseSection doc151Body [''CLAUDE.md''] = Some (linesDoc 151)"
  "parseSection appendBody [''CLAUDE.md''] = None"
  "parseSection appendBody [''Append to CLAUDE.md''] = Some ''One more line.''"
  by code_simp+

lemma doc_lines:
  "documentLines (linesDoc 150) = 150"
  "documentLines (linesDoc 151) = 151"
  "blockOrSection (linesDoc 150) = linesDoc 150"
  by code_simp+

lemma doc150_mounts:
  "validateMountsIsolation exampleConfig ''billing''
     (standardMounts exampleConfig ''billing'' @ customMountsOf doc150Body) = None"
  "customMountsOf doc150Body = []"
  by code_simp+

lemma billing_fresh:
  "getRegisteredGroup emptyState (''agent:'' @ ''billing'' @ ''-specialist'') = None"
  by (simp add: getRegisteredGroup_def emptyState_def)

lemma billing_target:
  "resolveTarget billingState ''billing'' =
     (''billing-specialist'', ''agent:billing-specialist'',
      getRegisteredGroup billingState ''agent:billing-specialist'')"
  "getRegisteredGroup billingState ''agent:billing-specialist'' \<noteq> None"
  "resolveTarget fullDocState ''billing'' =
     (''billing-specialist'', ''agent:billing-specialist'',
      getRegisteredGroup fullDocState ''agent:billing-specialist'')"
  "getRegisteredGroup fullDocState ''agent:billing-specialist'' \<noteq> None"
  by code_simp+

lemma fullDoc_append:
  "existingDocument exampleConfig ''billing-specialist'' fullDocState = linesDoc 150"
  "appendedLines (linesDoc 150) ''One more line.'' = 153"
  by code_simp+

text \<open>The theorem at documents of 150 and of 151 lines, for a create of \<open>billing\<close> and a
  modify of the created \<open>billing\<close>, and at a one-line append to a document of 150 lines.\<close>

theorem claudeMd_size_boundary_witness:
  "handleCreate exampleConfig ''billing'' doc151Body None emptyState
     = (Some (tooLongMessage 151), emptyState) \<and>
   handleCreate exampleConfig ''billing'' doc150Body None emptyState
     = createApply exampleConfig ''billing'' doc150Body None (linesDoc 150)
         (standardMounts exampleConfig ''billing'') emptyState \<and>
   modifyClaudeMd exampleConfig ''billing-specialist'' doc150Body billingState
     = (None, log ''  Updated CLAUDE.md for billing-specialist''
                (writeFileSync (claudeMdPath exampleConfig ''billing-specialist'') (linesDoc 150)
                   billingState)) \<and>
   handleModify exampleConfig ''billing'' doc151Body None billingState
     = (Some (tooLongMessage 151), billingState) \<and>
   existingDocument exampleConfig ''billing-specialist'' fullDocState = linesDoc 150 \<and>
   handleModify exampleConfig ''billing'' appendBody None fullDocState
     = (Some (tooLongAfterAppendMessage 153), fullDocState)"
proof -
  have c151: "handleCreate exampleConfig ''billing'' doc151Body None emptyState
     = (Some (tooLongMessage 151), emptyState)"
    using claudeMd_size_boundary [where cfg = exampleConfig and a = "''billing''"
        and st = emptyState and body = doc151Body and sec = "linesDoc 151" and mdl = None,
        THEN conjunct1]
      billing_valid billing_fresh doc_sections(2)
    by (simp add: doc_lines)
  have c150: "handleCreate exampleConfig ''billing'' doc150Body None emptyState
     = createApply exampleConfig ''billing'' doc150Body None (linesDoc 150)
         (standardMounts exampleConfig ''billing'') emptyState"
    using claudeMd_size_boundary [where cfg = exampleConfig and a = "''billing''"
        and st = emptyState and body = doc150Body and sec = "linesDoc 150" and mdl = None,
        THEN conjunct1]
      billing_valid billing_fresh doc_sections(1) doc150_mounts(1)
    by (simp add: doc_lines doc150_mounts(2))
  have m150: "modifyClaudeMd exampleConfig ''billing-specialist'' doc150Body billingState
     = (None, log ''  Updated CLAUDE.md for billing-specialist''
                (writeFileSync (claudeMdPath exampleConfig ''billing-specialist'') (linesDoc 150)
                   billingState))"
    using claudeMd_size_boundary [where cfg = exampleConfig and a = "''billing''"
        and st = billingState and body = doc150Body and sec = "linesDoc 150"
        and fld = "''billing-specialist''" and jid = "''agent:billing-specialist''"
        and grp = "getRegisteredGroup billingState ''agent:billing-specialist''",
        THEN conjunct2, THEN conjunct1]
      billing_target(1,2) doc_sections(1)
    by (simp add: doc_lines)
  have m151: "handleModify exampleConfig ''billing'' doc151Body None billingState
     = (Some (tooLongMessage 151), billingState)"
    using claudeMd_size_boundary [where cfg = exampleConfig and a = "''billing''"
        and st = billingState and body = doc151Body and sec = "linesDoc 151" and mdl = None
        and fld = "''billing-specialist''" and jid = "''agent:billing-specialist''"
        and grp = "getRegisteredGroup billingState ''agent:billing-specialist''",
        THEN conjunct2, THEN conjunct1]
      billing_target(1,2) doc_sections(2)
    by (simp add: doc_lines)
  have noSec: "modifyClaudeMd exampleConfig ''billing-specialist'' appendBody fullDocState
     = (None, fullDocState)"
    using claudeMd_size_boundary [where cfg = exampleConfig and body = appendBody
        and fld = "''billing-specialist''" and st = fullDocState,
        THEN conjunct2, THEN conjunct2, THEN conjunct2]
      doc_sections(3)
    by simp
  have app: "handleModify exampleConfig ''billing'' appendBody None fullDocState
     = (Some (tooLongAfterAppendMessage 153), fullDocState)"
    using claudeMd_size_boundary [where cfg = exampleConfig and a = "''billing''"
        and st = fullDocState and body = appendBody and mdl = None
        and fld = "''billing-specialist''" and jid = "''agent:billing-specialist''"
        and grp = "getRegisteredGroup fullDocState ''agent:billing-specialist''"
        and st' = fullDocState and asec = "''One more line.''",
        THEN conjunct2, THEN conjunct2, THEN conjunct1]
      billing_target(3,4) doc_sections(4) noSec
    by (simp add: fullDoc_append)
  from c151 c150 m150 m151 fullDoc_append(1) app show ?thesis by (intro conjI)
qed

section \<open>Properties of the file processing\<close>

lemma existsSync_read: "readFileSync st p = Some c \<Longrightarrow> existsSync st p"
proof -
  assume "readFileSync st p = Some c"
  then have "p \<in> set (map fst (files st))"
    by (auto simp: readFileSync_def dest: map_of_SomeD intro: rev_image_eqI)
  then show ?thesis
    unfolding existsSync_def list_ex_iff by (auto simp: isUnder_def)
qed

lemma renameSync_ok: "existsSync st old \<Longrightarrow> fst (renameSync old new st) = None"
  by (simp add: renameSync_def)

lemma renameSync_registry:
  "groups (snd (renameSync old new st)) = groups st \<and> tasks (snd (renameSync old new st)) = tasks st"
  by (simp add: renameSync_def)

lemma movePath_other:
  assumes "\<not> isUnder q new" and "movePath old new k = q"
  shows "k = q"
proof (rule ccontr)
  assume "k \<noteq> q"
  with assms(2) have u: "isUnder k old" and q: "q = new @ drop (length old) k"
    by (auto simp: movePath_def split: if_splits)
  from u obtain r where "k = old @ r" "r = [] \<or> hd r = CHR ''/''"
    unfolding isUnder_iff by blast
  with q have "q = new @ r \<and> (r = [] \<or> hd r = CHR ''/'')" by simp
  then have "isUnder q new" unfolding isUnder_iff by blast
  with assms(1) show False by simp
qed

lemma map_of_moved:
  assumes "\<not> isUnder q old" and "\<not> isUnder q new"
  shows "map_of (map (\<lambda>(k, c). (movePath old new k, c)) (filter (\<lambda>(k, c). \<not> isUnder k new) xs)) q
         = map_of xs q"
proof (induction xs)
  case Nil
  then show ?case by simp
next
  case (Cons x xs)
  obtain k c where x: "x = (k, c)" by (cases x)
  show ?case
  proof (cases "k = q")
    case True
    with assms x show ?thesis by (simp add: movePath_def)
  next
    case False
    then have "movePath old new k \<noteq> q"
      using movePath_other [OF assms(2), of old k] by blast
    with False x Cons show ?thesis by simp
  qed
qed

lemma readFileSync_renameSync_other:
  assumes "\<not> isUnder q old" and "\<not> isUnder q new"
  shows "readFileSync (snd (renameSync old new st)) q = readFileSync st q"
  using map_of_moved [OF assms, of "files st"]
  by (simp add: renameSync_def readFileSync_def)

lemma map_of_setKey: "map_of (setKey xs k v) q = (if q = k then Some v else map_of xs q)"
  by (induction xs) auto

lemma readFileSync_writeFileSync:
  "readFileSync (writeFileSync p c st) q = (if q = p then Some c else readFileSync st q)"
  by (simp add: readFileSync_def writeFileSync_def map_of_setKey)

lemma readFileSync_log [simp]: "readFileSync (log m st) q = readFileSync st q"
  by (simp add: readFileSync_def log_def)

lemma existsSync_log [simp]: "existsSync (log m st) p = existsSync st p"
  by (simp add: existsSync_def log_def)

lemma registry_log [simp]: "groups (log m st) = groups st" "tasks (log m st) = tasks st"
  by (simp_all add: log_def)

lemma registry_writeFileSync [simp]:
  "groups (writeFileSync p c st) = groups st" "tasks (writeFileSync p c st) = tasks st"
  by (simp_all add: writeFileSync_def)


lemma renameSpec_note:
  assumes "readFileSync st p = Some c" and "note \<noteq> []"
  shows "renameSpec p sfx (Some note) st =
           (None, snd (renameSync p (newSpecPath p sfx)
                         (writeFileSync p (c @ ''\<newline>\<newline>---\<newline>\<newline>'' @ note) st)))"
proof -
  have "readFileSync (writeFileSync p (c @ ''\<newline>\<newline>---\<newline>\<newline>'' @ note) st) p
        = Some (c @ ''\<newline>\<newline>---\<newline>\<newline>'' @ note)"
    by (simp add: readFileSync_writeFileSync)
  from renameSync_ok [OF existsSync_read [OF this], of "newSpecPath p sfx"] assms
  show ?thesis by (simp add: renameSpec_def prod_eq_iff)
qed




text \<open>
  C6 on the program: a delete spec for the orchestrator that carries the APPROVED marker
  goes through the approved path, whose switch has no case for delete, and is renamed to
  APPLIED with the log line of a success; the same spec without the marker is renamed to
  FAILED by the standard path.
\<close>

theorem approved_self_delete_is_applied:
  "(case processApprovedFile exampleConfig
           ''/g/main/shared/agent-ops/delete-orchestrator.APPROVED.md'' approvedDeleteState of
      (e, s) \<Rightarrow>
        (e, filter (\<lambda>p. startsWith p ''/g/main/shared/agent-ops/delete-orchestrator'') (map fst (files s)),
         drop (length (logs approvedDeleteState)) (logs s))) =
     (None, [''/g/main/shared/agent-ops/delete-orchestrator.APPLIED.md''],
      [''Processing approved: delete-orchestrator.APPROVED.md'',
       ''  APPLIED (approved): delete orchestrator'']) \<and>
   (case processSpecFile exampleConfig ''/g/main/shared/agent-ops/delete-orchestrator.md''
           (emptyState\<lparr>files := [(''/g/main/shared/agent-ops/delete-orchestrator.md'',
               ''---\<newline>operation: delete\<newline>agent: orchestrator\<newline>---\<newline>'')]\<rparr>) of
      (e, s) \<Rightarrow> (e, map fst (files s), logs s)) =
     (None, [''/g/main/shared/agent-ops/delete-orchestrator.FAILED.md''],
      [''Processing: delete-orchestrator.md'', ''  FAILED: Cannot delete orchestrator''])"
  by code_simp

section \<open>Properties of the approval gate\<close>












section \<open>No handler of create or modify removes a file\<close>





























lemma processSpecFile_standard:
  assumes "readFileSync st filePath = Some content"
      and "parseFrontmatter content = Some (fm, body)"
      and "toLowerCase (agent fm) \<notin> SELF_MOD_NAMES"
  shows "processSpecFile cfg filePath st =
           tryApply filePath
             (''  APPLIED: '' @ showOperation (operation fm) @ '' '' @ agent fm)
             (\<lambda>msg. ''  FAILED: '' @ showOperation (operation fm) @ '' '' @ agent fm @ '' - '' @ msg)
             (dispatchSpec cfg fm body (log (''Processing: '' @ basename filePath) st))"
  using assms by (simp add: processSpecFile_def Let_def)



section \<open>Deleting the orchestrator on the standard path\<close>

text \<open>A delete spec for the controller's own identity that reaches \<open>processSpecFile\<close> is
  renamed to FAILED with the error appended; the registry stays as it was, and so does
  every path outside the spec file and its new name.\<close>

lemma self_delete_fails:
  assumes "readFileSync st filePath = Some content"
      and "parseFrontmatter content = Some (fm, body)"
      and "operation fm = Delete"
      and "toLowerCase (agent fm) \<in> SELF_MOD_NAMES"
  shows "processSpecFile cfg filePath st =
           (None, log ''  FAILED: Cannot delete orchestrator''
                    (snd (renameSync filePath (newSpecPath filePath ''FAILED'')
                            (writeFileSync filePath
                               (content @ ''\<newline>\<newline>---\<newline>\<newline>''
                                @ ''**Error:** Cannot delete the Orchestrator.'')
                               (log (''Processing: '' @ basename filePath) st)))))"
    and "groups (snd (processSpecFile cfg filePath st)) = groups st"
    and "tasks (snd (processSpecFile cfg filePath st)) = tasks st"
    and "\<not> isUnder q filePath \<Longrightarrow> \<not> isUnder q (newSpecPath filePath ''FAILED'')
         \<Longrightarrow> readFileSync (snd (processSpecFile cfg filePath st)) q = readFileSync st q"
proof -
  let ?st1 = "log (''Processing: '' @ basename filePath) st"
  have r1: "readFileSync ?st1 filePath = Some content"
    using assms(1) by simp
  have n: "''**Error:** Cannot delete the Orchestrator.'' \<noteq> []" by simp
  show e: "processSpecFile cfg filePath st =
           (None, log ''  FAILED: Cannot delete orchestrator''
                    (snd (renameSync filePath (newSpecPath filePath ''FAILED'')
                            (writeFileSync filePath
                               (content @ ''\<newline>\<newline>---\<newline>\<newline>''
                                @ ''**Error:** Cannot delete the Orchestrator.'')
                               (log (''Processing: '' @ basename filePath) st)))))"
    using r1 assms(2,3,4) renameSpec_note [OF r1 n, of "''FAILED''"]
    by (simp add: processSpecFile_def Let_def andThen_def)
  show "groups (snd (processSpecFile cfg filePath st)) = groups st"
       "tasks (snd (processSpecFile cfg filePath st)) = tasks st"
    by (simp_all add: e renameSync_registry)
  assume a: "\<not> isUnder q filePath" "\<not> isUnder q (newSpecPath filePath ''FAILED'')"
  then have "q \<noteq> filePath" by (auto simp: isUnder_def)
  with a show "readFileSync (snd (processSpecFile cfg filePath st)) q = readFileSync st q"
    by (simp add: e readFileSync_renameSync_other readFileSync_writeFileSync)
qed

end
